theory Spec2Isabelle
  imports Complex_Main
begin

section \<open>JavaScript values used by the payment code\<close>

text \<open>
  A JavaScript \<open>number\<close> is modelled as an exact rational: the arithmetic of the payment
  code (\<open>*\<close>, \<open>/\<close>, \<open>toFixed(2)\<close>) is read in exact arithmetic, without the
  representation error of binary floating point. Strings are byte lists; only the ASCII
  letters have a lower-case form.
\<close>

type_synonym number = rat

definition lower_char :: "char \<Rightarrow> char" where
  "lower_char c =
     (case map_of (zip ''ABCDEFGHIJKLMNOPQRSTUVWXYZ'' ''abcdefghijklmnopqrstuvwxyz'') c of
        Some l \<Rightarrow> l
      | None \<Rightarrow> c)"

definition toLowerCase :: "string \<Rightarrow> string" where
  "toLowerCase s = map lower_char s"

fun starts_with :: "string \<Rightarrow> string \<Rightarrow> bool" where
  "starts_with s [] = True"
| "starts_with [] (p # ps) = False"
| "starts_with (c # cs) (p # ps) = (c = p \<and> starts_with cs ps)"

text \<open>\<open>String.prototype.includes\<close>: the needle occurs as a contiguous substring.\<close>

fun js_includes :: "string \<Rightarrow> string \<Rightarrow> bool" where
  "js_includes [] sub = (sub = [])"
| "js_includes (c # cs) sub = (starts_with (c # cs) sub \<or> js_includes cs sub)"

text \<open>An \<open>Error\<close> object: the optional \<open>code\<close> of a \<open>PaymentError\<close>, and the message.\<close>

record js_error =
  code :: "string option"
  message :: string

definition PaymentError :: "string \<Rightarrow> string \<Rightarrow> js_error" where
  "PaymentError c m = \<lparr>code = Some c, message = m\<rparr>"

definition plain_error :: "string \<Rightarrow> js_error" where
  "plain_error m = \<lparr>code = None, message = m\<rparr>"

section \<open>The persistent relations and the environment of one request\<close>

record service =
  s_id :: string
  s_name :: string
  s_category :: string
  s_pricing :: "(string \<times> number) list option"

record user =
  u_id :: string
  email_confirmed_at :: "string option"

record client =
  c_id :: string
  c_name :: string
  c_email :: string
  c_phone :: "string option"
  c_company :: "string option"

record order =
  o_id :: string
  client_id :: string
  service_id :: string
  package_type :: string
  amount_usd :: number
  amount_inr :: number
  amount_aud :: number
  currency :: string
  status :: string
  payment_gateway :: string
  zoho_invoice_id :: "string option"
  zoho_customer_id :: "string option"

record audit_entry =
  a_client_id :: "string option"
  a_action :: string
  a_transaction_id :: string
  a_success :: bool
  a_error_message :: string

datatype db_query = ServiceById | ServiceByName | ServiceByCategory | ServiceSample

text \<open>
  A query of the data store either answers, or resolves to an error result (the client
  library then hands back \<open>data = null\<close>), or rejects (the awaited promise throws).
\<close>

datatype db_fault = Throws string | ErrorResult string

record zoho_invoice =
  invoice_id :: string
  invoice_number :: string
  payment_url :: string
  total :: number
  inv_status :: string

text \<open>The parsed JSON body of a reply of the \<open>zoho-integration\<close> endpoint.\<close>

record edge_json =
  j_success :: bool
  j_error :: "string option"
  j_invoice :: "zoho_invoice option"
  j_contact_id :: "string option"

text \<open>
  What \<open>fetch\<close> does: it rejects with a message, or it resolves to a response with a
  status, the raw text of the body and the result of parsing that text as JSON (the
  message of the \<open>SyntaxError\<close> when it is not JSON).
\<close>

datatype fetch_outcome =
    FetchThrows string
  | FetchResponse nat string "string + edge_json"

record customer_data =
  cd_name :: string
  cd_email :: string
  cd_phone :: string
  cd_company :: string

text \<open>
  A line of \<open>serviceItems\<close>. The unit price is \<open>None\<close> when the division
  \<open>unitPrice / quantity\<close> has no finite value (quantity zero).
\<close>

record service_item =
  si_serviceId :: string
  si_serviceName :: string
  si_packageType :: string
  si_quantity :: nat
  si_unitPrice :: "number option"
  si_totalPrice :: number

text \<open>The \<open>notes\<close> string of a request, kept as the values it is assembled from.\<close>

record request_notes =
  n_order_id :: string
  n_transaction_id :: string
  n_service :: string
  n_package :: string
  n_quantity :: nat

record invoice_request =
  r_customerData :: customer_data
  r_serviceItems :: "service_item list"
  r_currency :: string
  r_notes :: request_notes

datatype fetch_request = GET | POST invoice_request

text \<open>
  The world of one request. The upper fields are the environment, which the payment code
  only reads: the answer of \<open>supabase.auth.getUser()\<close>, the rows of \<open>services\<close> and
  \<open>clients\<close> with the faults of the store, whether the store rejects an order row and
  the identifier it assigns, whether the audit log can be written, the transaction id
  drawn for the call, and the outcome of the \<open>n\<close>-th \<open>fetch\<close>. Two modules of the
  repository are not among the sources at hand and are parameters of the environment:
  \<open>getServiceById\<close> stands for \<open>ServiceManager.getServiceById\<close> (\<open>./services\<close>), and
  \<open>convertCurrency\<close> for the function of that name in \<open>../utils/currency\<close>. The lower
  fields are what the code writes: the order rows, the audit log, and the record of
  the waits, the requests sent with \<open>fetch\<close> and the queries on \<open>services\<close>.
\<close>

record world =
  auth_user :: "user option"
  auth_error :: "string option"
  services :: "service list"
  db_fault :: "db_query \<Rightarrow> db_fault option"
  getServiceById :: "string \<Rightarrow> service option"
  clients :: "client list"
  clients_error :: "string option"
  convertCurrency :: "(number \<Rightarrow> string \<Rightarrow> string \<Rightarrow> js_error + number) option"
  order_rejected :: "order \<Rightarrow> string option"
  new_order_id :: "nat \<Rightarrow> string"
  audit_available :: bool
  transaction_id :: string
  fetch_reply :: "nat \<Rightarrow> fetch_outcome"
  orders :: "order list"
  audit_log :: "audit_entry list"
  delays :: "nat list"
  fetch_log :: "fetch_request list"
  queries :: "db_query list"

section \<open>Service resolution (\<open>resolveServiceWithFallback\<close>)\<close>

definition is_hex :: "char \<Rightarrow> bool" where
  "is_hex c = (c \<in> set ''0123456789abcdefABCDEF'')"

text \<open>
  The regular expression
  \<^verbatim>\<open>/^[0-9a-f]{8}-[0-9a-f]{4}-[1-5][0-9a-f]{3}-[89ab][0-9a-f]{3}-[0-9a-f]{12}$/i\<close>.
\<close>

definition uuidRegex :: "string \<Rightarrow> bool" where
  "uuidRegex s =
     (length s = 36
      \<and> list_all is_hex (take 8 s)
      \<and> s ! 8 = CHR ''-''
      \<and> list_all is_hex (take 4 (drop 9 s))
      \<and> s ! 13 = CHR ''-''
      \<and> s ! 14 \<in> set ''12345''
      \<and> list_all is_hex (take 3 (drop 15 s))
      \<and> s ! 18 = CHR ''-''
      \<and> s ! 19 \<in> set ''89abAB''
      \<and> list_all is_hex (take 3 (drop 20 s))
      \<and> s ! 23 = CHR ''-''
      \<and> list_all is_hex (drop 24 s))"

text \<open>
  The filter \<open>.ilike(column, `%${x}%`)\<close> of the data store, read as the persistence
  interface describes it: case-insensitive containment of \<open>x\<close> in the column. (The
  pattern characters \<open>%\<close> and \<open>_\<close> inside \<open>x\<close> are not given their pattern meaning.)
\<close>

definition ilike_contains :: "string \<Rightarrow> string \<Rightarrow> bool" where
  "ilike_contains column x = js_includes (toLowerCase column) (toLowerCase x)"

text \<open>
  One \<open>select\<close> on the \<open>services\<close> relation: the request is recorded, and the
  outcome is the rows the filter selects unless the store is at fault for this query.
\<close>

definition db_select ::
  "world \<Rightarrow> db_query \<Rightarrow> service list \<Rightarrow> (js_error + service list option) \<times> world" where
  "db_select w q rows =
     (let w' = w\<lparr>queries := queries w @ [q]\<rparr> in
      case db_fault w q of
        Some (Throws m) \<Rightarrow> (Inl (plain_error m), w')
      | Some (ErrorResult m) \<Rightarrow> (Inr None, w')
      | None \<Rightarrow> (Inr (Some rows), w'))"

text \<open>\<open>.maybeSingle()\<close>: the row when exactly one is selected, \<open>null\<close> otherwise.\<close>

definition maybeSingle :: "'a list option \<Rightarrow> 'a option" where
  "maybeSingle d = (case d of Some [r] \<Rightarrow> Some r | _ \<Rightarrow> None)"

definition fuzzy_matches :: "string \<Rightarrow> service \<Rightarrow> bool" where
  "fuzzy_matches serviceIdentifier service =
     (js_includes (toLowerCase (s_name service)) (toLowerCase serviceIdentifier)
      \<or> js_includes (toLowerCase serviceIdentifier) (toLowerCase (s_name service)))"

definition resolve_strategy4 :: "world \<Rightarrow> string \<Rightarrow> (js_error + string option) \<times> world" where
  "resolve_strategy4 w serviceIdentifier =
     (case db_select w ServiceSample (take 10 (services w)) of
        (Inl e, w1) \<Rightarrow> (Inl e, w1)
      | (Inr fuzzyMatch, w1) \<Rightarrow>
          (case fuzzyMatch of
             None \<Rightarrow> (Inr None, w1)
           | Some rows \<Rightarrow>
               (case find (fuzzy_matches serviceIdentifier) rows of
                  Some match \<Rightarrow> (Inr (Some (s_id match)), w1)
                | None \<Rightarrow> (Inr None, w1))))"

definition resolve_strategy3 :: "world \<Rightarrow> string \<Rightarrow> (js_error + string option) \<times> world" where
  "resolve_strategy3 w serviceIdentifier =
     (case db_select w ServiceByCategory
             (take 1 (filter (\<lambda>s. ilike_contains (s_category s) serviceIdentifier) (services w))) of
        (Inl e, w1) \<Rightarrow> (Inl e, w1)
      | (Inr d, w1) \<Rightarrow>
          (case maybeSingle d of
             Some categoryMatch \<Rightarrow> (Inr (Some (s_id categoryMatch)), w1)
           | None \<Rightarrow> resolve_strategy4 w1 serviceIdentifier))"

definition resolve_strategy2 :: "world \<Rightarrow> string \<Rightarrow> (js_error + string option) \<times> world" where
  "resolve_strategy2 w serviceIdentifier =
     (case db_select w ServiceByName
             (take 1 (filter (\<lambda>s. ilike_contains (s_name s) serviceIdentifier) (services w))) of
        (Inl e, w1) \<Rightarrow> (Inl e, w1)
      | (Inr d, w1) \<Rightarrow>
          (case maybeSingle d of
             Some nameMatch \<Rightarrow> (Inr (Some (s_id nameMatch)), w1)
           | None \<Rightarrow> resolve_strategy3 w1 serviceIdentifier))"

definition resolve_strategy1 :: "world \<Rightarrow> string \<Rightarrow> (js_error + string option) \<times> world" where
  "resolve_strategy1 w serviceIdentifier =
     (if uuidRegex serviceIdentifier then
        (case db_select w ServiceById (filter (\<lambda>s. s_id s = serviceIdentifier) (services w)) of
           (Inl e, w1) \<Rightarrow> (Inl e, w1)
         | (Inr d, w1) \<Rightarrow>
             (case maybeSingle d of
                Some dat \<Rightarrow> (Inr (Some serviceIdentifier), w1)
              | None \<Rightarrow> resolve_strategy2 w1 serviceIdentifier))
      else resolve_strategy2 w serviceIdentifier)"

text \<open>The \<open>try\<close> block is \<open>resolve_strategy1\<close>; the \<open>catch\<close> turns any error into \<open>null\<close>.\<close>

definition resolveServiceWithFallback :: "world \<Rightarrow> string \<Rightarrow> string option \<times> world" where
  "resolveServiceWithFallback w serviceIdentifier =
     (case resolve_strategy1 w serviceIdentifier of
        (Inl e, w1) \<Rightarrow> (None, w1)
      | (Inr r, w1) \<Rightarrow> (r, w1))"

section \<open>Currency amounts (\<open>calculateCurrencyAmounts\<close>)\<close>

text \<open>
  \<open>parseFloat(x.toFixed(2))\<close>: the multiple of one hundredth nearest to \<open>x\<close>, a tie
  going away from zero.
\<close>

definition toFixed2 :: "number \<Rightarrow> number" where
  "toFixed2 x =
     (if x < 0 then - (of_int \<lfloor>- x * 100 + 1 / 2\<rfloor> / 100)
      else of_int \<lfloor>x * 100 + 1 / 2\<rfloor> / 100)"

record amounts =
  usd :: number
  inr :: number
  aud :: number

text \<open>
  The \<open>try\<close> block. The module \<open>../utils/currency\<close> is not part of the sources at
  hand: its \<open>convertCurrency\<close> is a parameter of the environment, absent when the
  dynamic import fails, and each call may raise.
\<close>

definition calculateCurrencyAmounts_try :: "world \<Rightarrow> number \<Rightarrow> string \<Rightarrow> js_error + amounts" where
  "calculateCurrencyAmounts_try w amount cur =
     (case convertCurrency w of
        None \<Rightarrow> Inl (plain_error ''Failed to fetch dynamically imported module'')
      | Some conv \<Rightarrow>
          (if cur = ''USD'' then
             (case conv amount ''USD'' ''INR'' of
                Inl e \<Rightarrow> Inl e
              | Inr i \<Rightarrow>
                  (case conv amount ''USD'' ''AUD'' of
                     Inl e \<Rightarrow> Inl e
                   | Inr a \<Rightarrow> Inr \<lparr>usd = toFixed2 amount, inr = toFixed2 i, aud = toFixed2 a\<rparr>))
           else if cur = ''INR'' then
             (case conv amount ''INR'' ''USD'' of
                Inl e \<Rightarrow> Inl e
              | Inr u \<Rightarrow>
                  (case conv amount ''INR'' ''AUD'' of
                     Inl e \<Rightarrow> Inl e
                   | Inr a \<Rightarrow> Inr \<lparr>usd = toFixed2 u, inr = toFixed2 amount, aud = toFixed2 a\<rparr>))
           else if cur = ''AUD'' then
             (case conv amount ''AUD'' ''USD'' of
                Inl e \<Rightarrow> Inl e
              | Inr u \<Rightarrow>
                  (case conv amount ''AUD'' ''INR'' of
                     Inl e \<Rightarrow> Inl e
                   | Inr i \<Rightarrow> Inr \<lparr>usd = toFixed2 u, inr = toFixed2 i, aud = toFixed2 amount\<rparr>))
           else Inr \<lparr>usd = toFixed2 amount, inr = toFixed2 amount, aud = toFixed2 amount\<rparr>))"

definition rate_INR :: number where "rate_INR = 8325 / 100"
definition rate_AUD :: number where "rate_AUD = 152 / 100"

text \<open>The \<open>catch\<close> block: the fallback rates \<open>{ USD: 1, INR: 83.25, AUD: 1.52 }\<close>.\<close>

definition fallback_amounts :: "number \<Rightarrow> string \<Rightarrow> amounts" where
  "fallback_amounts amount cur =
     (if cur = ''USD'' then
        \<lparr>usd = toFixed2 amount, inr = toFixed2 (amount * rate_INR), aud = toFixed2 (amount * rate_AUD)\<rparr>
      else if cur = ''INR'' then
        \<lparr>usd = toFixed2 (amount / rate_INR), inr = toFixed2 amount,
         aud = toFixed2 ((amount / rate_INR) * rate_AUD)\<rparr>
      else if cur = ''AUD'' then
        \<lparr>usd = toFixed2 (amount / rate_AUD), inr = toFixed2 ((amount / rate_AUD) * rate_INR),
         aud = toFixed2 amount\<rparr>
      else \<lparr>usd = toFixed2 amount, inr = toFixed2 amount, aud = toFixed2 amount\<rparr>)"

definition calculateCurrencyAmounts :: "world \<Rightarrow> number \<Rightarrow> string \<Rightarrow> amounts" where
  "calculateCurrencyAmounts w amount cur =
     (case calculateCurrencyAmounts_try w amount cur of
        Inr a \<Rightarrow> a
      | Inl e \<Rightarrow> fallback_amounts amount cur)"

section \<open>Error classification, audit log, delay\<close>

definition MAX_RETRIES :: nat where "MAX_RETRIES = 3"
definition RETRY_DELAY :: nat where "RETRY_DELAY = 1000"

definition retryableErrors :: "string list" where
  "retryableErrors =
     [''NETWORK_ERROR'', ''TIMEOUT'', ''ZOHO_TEMPORARY_ERROR'', ''DATABASE_TIMEOUT'', ''RATE_LIMIT'']"

definition isRetryableError :: "js_error \<Rightarrow> bool" where
  "isRetryableError error =
     list_ex (\<lambda>c. code error = Some c
                 \<or> js_includes (message error) ''timeout''
                 \<or> js_includes (message error) ''network''
                 \<or> js_includes (message error) ''temporary'') retryableErrors"

text \<open>The error \<open>createPaymentIntent\<close> raises: a \<open>PaymentError\<close> with its context.\<close>

record payment_error =
  pe_code :: string
  pe_message :: string
  pe_transactionId :: string
  pe_originalError :: js_error
  pe_retryable :: bool

definition enhanceError :: "js_error \<Rightarrow> string \<Rightarrow> payment_error" where
  "enhanceError error transactionId =
     \<lparr>pe_code = (case code error of Some c \<Rightarrow> (if c = [] then ''PAYMENT_ERROR'' else c)
                                   | None \<Rightarrow> ''PAYMENT_ERROR''),
      pe_message = (if message error = [] then ''Payment creation failed'' else message error),
      pe_transactionId = transactionId,
      pe_originalError = error,
      pe_retryable = isRetryableError error\<rparr>"

text \<open>
  \<open>logPaymentFailure\<close>: one insert into \<open>purchase_audit_log\<close>; whatever goes wrong
  while logging (\<open>audit_available\<close> false) is swallowed by the \<open>catch\<close>.
\<close>

definition logPaymentFailure :: "world \<Rightarrow> string \<Rightarrow> string \<Rightarrow> world" where
  "logPaymentFailure w transactionId errorMessage =
     (if audit_available w then
        w\<lparr>audit_log := audit_log w @
            [\<lparr>a_client_id = (case auth_user w of
                               Some u \<Rightarrow> (if u_id u = [] then None else Some (u_id u))
                             | None \<Rightarrow> None),
              a_action = ''payment_creation_failed'',
              a_transaction_id = transactionId,
              a_success = False,
              a_error_message = errorMessage\<rparr>]\<rparr>
      else w)"

definition delay :: "world \<Rightarrow> nat \<Rightarrow> world" where
  "delay w ms = w\<lparr>delays := delays w @ [ms]\<rparr>"

section \<open>The invoicing call and its retry loop\<close>

function show_nat :: "nat \<Rightarrow> string" where
  "show_nat n =
     (if n < 10 then [''0123456789'' ! n]
      else show_nat (n div 10) @ [''0123456789'' ! (n mod 10)])"
  by pat_completeness auto
termination
  by (relation "measure id") auto

declare show_nat.simps [simp del]

record payment_intent =
  pi_invoice_id :: string
  pi_invoice_number :: string
  pi_payment_url :: string
  pi_total :: number
  pi_status :: string
  pi_customer_id :: string
  pi_transaction_id :: string

definition response_ok :: "nat \<Rightarrow> bool" where
  "response_ok st = (200 \<le> st \<and> st \<le> 299)"

text \<open>One \<open>fetch\<close>: the request is recorded; the environment decides the outcome.\<close>

definition fetch :: "world \<Rightarrow> fetch_request \<Rightarrow> fetch_outcome \<times> world" where
  "fetch w req = (fetch_reply w (length (fetch_log w)), w\<lparr>fetch_log := fetch_log w @ [req]\<rparr>)"

text \<open>What \<open>checkZohoHealth\<close> makes of the outcome of its probe.\<close>

definition health_of :: "fetch_outcome \<Rightarrow> bool \<times> string option" where
  "health_of outcome =
     (case outcome of
        FetchThrows m \<Rightarrow> (False, Some m)
      | FetchResponse st txt json \<Rightarrow>
          (if \<not> response_ok st then (False, Some (''HTTP '' @ show_nat st))
           else (case json of
                   Inl m \<Rightarrow> (False, Some m)
                 | Inr result \<Rightarrow> (j_success result, j_error result))))"

definition checkZohoHealth :: "world \<Rightarrow> (bool \<times> string option) \<times> world" where
  "checkZohoHealth w = (case fetch w GET of (outcome, w1) \<Rightarrow> (health_of outcome, w1))"

definition or_else :: "string option \<Rightarrow> string \<Rightarrow> string" where
  "or_else v d = (case v of Some m \<Rightarrow> (if m = [] then d else m) | None \<Rightarrow> d)"

text \<open>The body of the \<open>POST\<close> request: customer data, the service item, currency, notes.\<close>

definition invoice_request_of ::
  "order \<Rightarrow> service \<Rightarrow> client \<Rightarrow> nat \<Rightarrow> string \<Rightarrow> invoice_request" where
  "invoice_request_of ord service cl quantity transactionId =
     (let customerData =
            \<lparr>cd_name = c_name cl, cd_email = c_email cl,
             cd_phone = or_else (c_phone cl) [], cd_company = or_else (c_company cl) []\<rparr>;
          unitPrice =
            (if currency ord = ''USD'' then amount_usd ord
             else if currency ord = ''INR'' then amount_inr ord
             else amount_aud ord);
          serviceItems =
            [\<lparr>si_serviceId = s_id service, si_serviceName = s_name service,
              si_packageType = package_type ord, si_quantity = quantity,
              si_unitPrice = (if quantity = 0 then None else Some (unitPrice / of_nat quantity)),
              si_totalPrice = unitPrice\<rparr>]
      in \<lparr>r_customerData = customerData, r_serviceItems = serviceItems,
          r_currency = currency ord,
          r_notes = \<lparr>n_order_id = o_id ord, n_transaction_id = transactionId,
                     n_service = s_name service, n_package = package_type ord,
                     n_quantity = quantity\<rparr>\<rparr>)"

text \<open>
  What \<open>createZohoInvoiceAttempt\<close> makes of the outcome of its \<open>POST\<close>: the typed
  errors for a response that is not \<open>ok\<close>, then the reading of the JSON body.
\<close>

definition invoice_response :: "fetch_outcome \<Rightarrow> string \<Rightarrow> js_error + payment_intent" where
  "invoice_response outcome transactionId =
     (case outcome of
        FetchThrows m \<Rightarrow> Inl (plain_error m)
      | FetchResponse st errorText json \<Rightarrow>
          (if \<not> response_ok st then
             (let errorData = (case json of Inl m \<Rightarrow> Some errorText | Inr j \<Rightarrow> j_error j) in
              if st = 500 \<and> (case errorData of
                               Some m \<Rightarrow> js_includes m ''Missing Zoho configuration''
                             | None \<Rightarrow> False)
              then Inl (PaymentError ''ZOHO_CONFIG_MISSING''
                      ''Payment system configuration error. Please contact support.'')
              else if st = 401
              then Inl (PaymentError ''ZOHO_AUTH_FAILED''
                      ''Payment gateway authentication failed. Please try again.'')
              else Inl (PaymentError ''ZOHO_API_ERROR''
                      (''Payment gateway error: '' @ or_else errorData errorText)))
           else
             (case json of
                Inl m \<Rightarrow> Inl (plain_error m)
              | Inr result \<Rightarrow>
                  (if \<not> j_success result then
                     Inl (PaymentError ''ZOHO_INTEGRATION_FAILED''
                            (or_else (j_error result) ''Zoho integration failed''))
                   else
                     (case j_invoice result of
                        None \<Rightarrow> Inl (plain_error ''Cannot read properties of undefined'')
                      | Some invoice \<Rightarrow>
                          (case j_contact_id result of
                             None \<Rightarrow> Inl (plain_error ''Cannot read properties of undefined'')
                           | Some cid \<Rightarrow>
                               Inr \<lparr>pi_invoice_id = invoice_id invoice,
                                    pi_invoice_number = invoice_number invoice,
                                    pi_payment_url = payment_url invoice,
                                    pi_total = total invoice,
                                    pi_status = inv_status invoice,
                                    pi_customer_id = cid,
                                    pi_transaction_id = transactionId\<rparr>))))))"

definition createZohoInvoiceAttempt ::
  "world \<Rightarrow> order \<Rightarrow> service \<Rightarrow> client \<Rightarrow> nat \<Rightarrow> string \<Rightarrow> (js_error + payment_intent) \<times> world" where
  "createZohoInvoiceAttempt w ord service cl quantity transactionId =
     (case checkZohoHealth w of
        ((healthy, err), w1) \<Rightarrow>
          (if \<not> healthy then
             (Inl (PaymentError ''ZOHO_UNAVAILABLE''
                     (''Zoho integration unavailable: ''
                        @ (case err of Some m \<Rightarrow> m | None \<Rightarrow> ''undefined''))), w1)
           else
             (case fetch w1 (POST (invoice_request_of ord service cl quantity transactionId)) of
                (outcome, w2) \<Rightarrow> (invoice_response outcome transactionId, w2))))"

text \<open>
  \<open>createZohoInvoiceWithRetry\<close>: the \<open>for\<close> loop over \<open>attempt\<close>, from 1. Every
  error is retried; the wait after attempt \<open>k\<close> is \<open>RETRY_DELAY * k\<close>.
\<close>

function createZohoInvoiceWithRetry_from ::
  "nat \<Rightarrow> world \<Rightarrow> order \<Rightarrow> service \<Rightarrow> client \<Rightarrow> nat \<Rightarrow> string \<Rightarrow> (js_error + payment_intent) \<times> world" where
  "createZohoInvoiceWithRetry_from attempt w ord service cl quantity transactionId =
     (if attempt \<le> MAX_RETRIES then
        (case createZohoInvoiceAttempt w ord service cl quantity transactionId of
           (Inr r, w1) \<Rightarrow> (Inr r, w1)
         | (Inl error, w1) \<Rightarrow>
             (if attempt = MAX_RETRIES then (Inl error, w1)
              else createZohoInvoiceWithRetry_from (attempt + 1) (delay w1 (RETRY_DELAY * attempt))
                     ord service cl quantity transactionId))
      else (Inl (plain_error ''Zoho invoice creation failed after all retries''), w))"
  by pat_completeness auto
termination
  by (relation "measure (\<lambda>(attempt, w, ord, service, cl, quantity, transactionId). MAX_RETRIES + 1 - attempt)")
     auto

declare createZohoInvoiceWithRetry_from.simps [simp del]

definition createZohoInvoiceWithRetry ::
  "world \<Rightarrow> order \<Rightarrow> service \<Rightarrow> client \<Rightarrow> nat \<Rightarrow> string \<Rightarrow> (js_error + payment_intent) \<times> world" where
  "createZohoInvoiceWithRetry = createZohoInvoiceWithRetry_from 1"

section \<open>The orchestrator (\<open>createPaymentIntentAttempt\<close>, \<open>createPaymentIntent\<close>)\<close>

text \<open>
  The property names every object inherits from \<open>Object.prototype\<close>: a lookup
  \<open>obj[key]\<close> that finds no own property finds these, and what it finds is truthy.
\<close>

definition object_prototype_keys :: "string list" where
  "object_prototype_keys =
     [''constructor'', ''hasOwnProperty'', ''isPrototypeOf'', ''propertyIsEnumerable'',
      ''toLocaleString'', ''toString'', ''valueOf'', ''__proto__'', ''__defineGetter__'',
      ''__defineSetter__'', ''__lookupGetter__'', ''__lookupSetter__'']"

text \<open>
  The package validation \<open>!service.pricing || !service.pricing[packageType]\<close>, negated:
  the price object exists and the lookup is truthy (a price of zero is not).
\<close>

definition package_available :: "service \<Rightarrow> string \<Rightarrow> bool" where
  "package_available service packageType =
     (case s_pricing service of
        None \<Rightarrow> False
      | Some pricing \<Rightarrow>
          (case map_of pricing packageType of
             Some price \<Rightarrow> price \<noteq> 0
           | None \<Rightarrow> packageType \<in> set object_prototype_keys))"

text \<open>
  \<open>.insert([orderData]).select().single()\<close> on \<open>orders\<close>: the store assigns the
  identifier; it may reject the row (constraint, trigger, policy, connection).
\<close>

definition insert_order :: "world \<Rightarrow> order \<Rightarrow> (string + order) \<times> world" where
  "insert_order w orderData =
     (let row = orderData\<lparr>o_id := new_order_id w (length (orders w))\<rparr> in
      case order_rejected w row of
        Some m \<Rightarrow> (Inl m, w)
      | None \<Rightarrow> (Inr row, w\<lparr>orders := orders w @ [row]\<rparr>))"

definition update_order_zoho :: "world \<Rightarrow> string \<Rightarrow> string \<Rightarrow> string \<Rightarrow> world" where
  "update_order_zoho w oid inv_id cust_id =
     w\<lparr>orders := map (\<lambda>r. if o_id r = oid
                            then r\<lparr>zoho_invoice_id := Some inv_id, zoho_customer_id := Some cust_id\<rparr>
                            else r) (orders w)\<rparr>"

definition truthy :: "string option \<Rightarrow> bool" where
  "truthy v = (case v of Some m \<Rightarrow> m \<noteq> [] | None \<Rightarrow> False)"

text \<open>Step 6: the object \<open>orderData\<close> that is inserted into \<open>orders\<close>.\<close>

definition step6_orderData :: "string \<Rightarrow> string \<Rightarrow> string \<Rightarrow> amounts \<Rightarrow> string \<Rightarrow> order" where
  "step6_orderData uid serviceId packageType amts cur =
     \<lparr>o_id = [], client_id = uid, service_id = serviceId, package_type = packageType,
      amount_usd = usd amts, amount_inr = inr amts, amount_aud = aud amts,
      currency = cur, status = ''pending'', payment_gateway = ''zoho'',
      zoho_invoice_id = None, zoho_customer_id = None\<rparr>"

definition createPaymentIntentAttempt ::
  "world \<Rightarrow> string \<Rightarrow> string \<Rightarrow> number \<Rightarrow> string \<Rightarrow> nat \<Rightarrow> string \<Rightarrow> (js_error + payment_intent) \<times> world" where
  "createPaymentIntentAttempt w serviceIdentifier packageType totalPrice cur quantity transactionId =
     (case auth_user w of
        None \<Rightarrow>
          (Inl (PaymentError ''AUTH_REQUIRED'' ''Authentication required. Please log in to continue.''), w)
      | Some usr \<Rightarrow>
          (if auth_error w \<noteq> None then
             (Inl (PaymentError ''AUTH_REQUIRED'' ''Authentication required. Please log in to continue.''), w)
           else if \<not> truthy (email_confirmed_at usr) then
             (Inl (PaymentError ''EMAIL_NOT_VERIFIED''
                ''Email verification required. Please verify your email before making purchases.''), w)
           else
             (case resolveServiceWithFallback w serviceIdentifier of
                (resolved, w1) \<Rightarrow>
                  (if \<not> truthy resolved then
                     (Inl (PaymentError ''SERVICE_NOT_FOUND''
                        (''Service not found: '' @ serviceIdentifier
                           @ ''. Please check the service ID and try again.'')), w1)
                   else
                     (let serviceId = or_else resolved [] in
                      case getServiceById w1 serviceId of
                        None \<Rightarrow>
                          (Inl (PaymentError ''SERVICE_DATA_MISSING''
                             (''Service data not found for ID: '' @ serviceId)), w1)
                      | Some service \<Rightarrow>
                          (if \<not> package_available service packageType then
                             (Inl (PaymentError ''INVALID_PACKAGE''
                                (''Package type '' @ [CHR 0x22] @ packageType @ [CHR 0x22]
                                   @ '' not available for '' @ s_name service)), w1)
                           else
                             (let profiles = filter (\<lambda>c. c_id c = u_id usr) (clients w1) in
                              if clients_error w1 \<noteq> None \<or> length profiles > 1 then
                                (Inl (PaymentError ''CLIENT_PROFILE_ERROR''
                                   ''Failed to load client profile. Please try again.''), w1)
                              else
                                (case profiles of
                                   [] \<Rightarrow>
                                     (Inl (PaymentError ''CLIENT_PROFILE_MISSING''
                                        ''Client profile not found. Please complete your profile setup.''), w1)
                                 | clientProfile # _ \<Rightarrow>
                                     (let amts = calculateCurrencyAmounts w1 totalPrice cur;
                                          orderData = step6_orderData (u_id usr) serviceId
                                                        packageType amts cur
                                      in case insert_order w1 orderData of
                                           (Inl m, w2) \<Rightarrow>
                                             (Inl (PaymentError ''ORDER_CREATION_FAILED''
                                                (''Failed to create order: '' @ m)), w2)
                                         | (Inr ord, w2) \<Rightarrow>
                                             (case createZohoInvoiceWithRetry w2 ord service
                                                     clientProfile quantity transactionId of
                                                (Inl e, w3) \<Rightarrow> (Inl e, w3)
                                              | (Inr zohoResult, w3) \<Rightarrow>
                                                  (Inr (zohoResult\<lparr>pi_transaction_id := transactionId\<rparr>),
                                                   update_order_zoho w3 (o_id ord)
                                                     (pi_invoice_id zohoResult)
                                                     (pi_customer_id zohoResult))))))))))))"

text \<open>
  What \<open>createPaymentIntent\<close> throws: the enhanced \<open>PaymentError\<close>, or the plain
  \<open>Error\<close> after the loop.
\<close>

datatype thrown = Enhanced payment_error | Plain js_error

text \<open>
  The \<open>for\<close> loop of \<open>createPaymentIntent\<close> over \<open>attempt\<close>, from 1: a failed attempt
  is repeated after \<open>RETRY_DELAY * 2 ^ (attempt - 1)\<close> when its error is retryable and
  attempts remain; otherwise the failure is logged and the enhanced error is thrown.
\<close>

function createPaymentIntent_from ::
  "nat \<Rightarrow> world \<Rightarrow> string \<Rightarrow> string \<Rightarrow> number \<Rightarrow> string \<Rightarrow> nat \<Rightarrow> string \<Rightarrow> (thrown + payment_intent) \<times> world" where
  "createPaymentIntent_from attempt w serviceIdentifier packageType totalPrice cur quantity transactionId =
     (if attempt \<le> MAX_RETRIES then
        (case createPaymentIntentAttempt w serviceIdentifier packageType totalPrice cur quantity
                transactionId of
           (Inr r, w1) \<Rightarrow> (Inr r, w1)
         | (Inl error, w1) \<Rightarrow>
             (if attempt = MAX_RETRIES \<or> \<not> isRetryableError error then
                (Inl (Enhanced (enhanceError error transactionId)),
                 logPaymentFailure w1 transactionId (message error))
              else createPaymentIntent_from (attempt + 1)
                     (delay w1 (RETRY_DELAY * 2 ^ (attempt - 1)))
                     serviceIdentifier packageType totalPrice cur quantity transactionId))
      else (Inl (Plain (plain_error ''Payment creation failed after all retries'')), w))"
  by pat_completeness auto
termination
  by (relation "measure (\<lambda>(attempt, w, serviceIdentifier, packageType, totalPrice, cur, quantity, transactionId). MAX_RETRIES + 1 - attempt)")
     auto

declare createPaymentIntent_from.simps [simp del]

definition createPaymentIntent ::
  "world \<Rightarrow> string \<Rightarrow> string \<Rightarrow> number \<Rightarrow> string \<Rightarrow> nat \<Rightarrow> (thrown + payment_intent) \<times> world" where
  "createPaymentIntent w serviceIdentifier packageType totalPrice cur quantity =
     createPaymentIntent_from 1 w serviceIdentifier packageType totalPrice cur quantity
       (transaction_id w)"

section \<open>The alternative channels (\<open>AlternativePaymentService\<close>)\<close>

record channel_order_data =
  od_serviceId :: string
  od_serviceName :: string
  od_packageType :: string
  od_amount :: number
  od_currency :: string
  od_clientEmail :: string
  od_clientName :: string

text \<open>The object both channels insert into \<open>orders\<close>, up to the gateway tag.\<close>

definition channel_order_row :: "string \<Rightarrow> channel_order_data \<Rightarrow> string \<Rightarrow> order" where
  "channel_order_row uid orderData gateway =
     \<lparr>o_id = [], client_id = uid, service_id = od_serviceId orderData,
      package_type = od_packageType orderData,
      amount_usd = (if od_currency orderData = ''USD'' then od_amount orderData
                    else od_amount orderData / (8325 / 100)),
      amount_inr = (if od_currency orderData = ''INR'' then od_amount orderData
                    else od_amount orderData * (8325 / 100)),
      amount_aud = (if od_currency orderData = ''AUD'' then od_amount orderData
                    else od_amount orderData * (152 / 100)),
      currency = od_currency orderData,
      status = ''pending'',
      payment_gateway = gateway,
      zoho_invoice_id = None, zoho_customer_id = None\<rparr>"

definition uri_unreserved :: "char \<Rightarrow> bool" where
  "uri_unreserved c =
     (c \<in> set (''ABCDEFGHIJKLMNOPQRSTUVWXYZabcdefghijklmnopqrstuvwxyz0123456789-_.!~*()''
                @ [CHR 0x27]))"

definition percent_encode :: "char \<Rightarrow> string" where
  "percent_encode c =
     [CHR ''%'', ''0123456789ABCDEF'' ! (of_char c div 16), ''0123456789ABCDEF'' ! (of_char c mod 16)]"

definition encodeURIComponent :: "string \<Rightarrow> string" where
  "encodeURIComponent s = concat (map (\<lambda>c. if uri_unreserved c then [c] else percent_encode c) s)"

definition email_body :: "(number \<Rightarrow> string) \<Rightarrow> channel_order_data \<Rightarrow> string \<Rightarrow> string" where
  "email_body show_number orderData oid =
     [CHR 0x0A] @ ''Dear Mechinweb Team,'' @ [CHR 0x0A, CHR 0x0A]
     @ ''I would like to proceed with payment for my order:'' @ [CHR 0x0A, CHR 0x0A]
     @ ''Order ID: '' @ oid @ [CHR 0x0A]
     @ ''Service: '' @ od_serviceName orderData @ [CHR 0x0A]
     @ ''Package: '' @ od_packageType orderData @ [CHR 0x0A]
     @ ''Amount: '' @ show_number (od_amount orderData) @ '' '' @ od_currency orderData @ [CHR 0x0A]
     @ ''Client: '' @ od_clientName orderData @ [CHR 0x0A]
     @ ''Email: '' @ od_clientEmail orderData @ [CHR 0x0A, CHR 0x0A]
     @ ''Please send me payment instructions.'' @ [CHR 0x0A, CHR 0x0A]
     @ ''Best regards,'' @ [CHR 0x0A]
     @ od_clientName orderData @ [CHR 0x0A]
     @ ''      ''"

text \<open>
  \<open>createEmailPayment\<close>. The text JavaScript gives for a number inside a template
  literal is the parameter \<open>show_number\<close>.
\<close>

definition createEmailPayment ::
  "(number \<Rightarrow> string) \<Rightarrow> world \<Rightarrow> channel_order_data \<Rightarrow> (js_error + string) \<times> world" where
  "createEmailPayment show_number w orderData =
     (case auth_user w of
        None \<Rightarrow> (Inl (plain_error ''Authentication required''), w)
      | Some usr \<Rightarrow>
          (case insert_order w (channel_order_row (u_id usr) orderData ''email'') of
             (Inl m, w1) \<Rightarrow> (Inl (plain_error m), w1)
           | (Inr ord, w1) \<Rightarrow>
               (let subject = encodeURIComponent
                      (''Payment for '' @ od_serviceName orderData @ '' - Order '' @ o_id ord);
                    body = encodeURIComponent (email_body show_number orderData (o_id ord))
                in (Inr (''mailto:contact@mechinweb.com?subject='' @ subject @ ''&body='' @ body), w1))))"

definition createBankTransferPayment ::
  "world \<Rightarrow> channel_order_data \<Rightarrow> (js_error + string) \<times> world" where
  "createBankTransferPayment w orderData =
     (case auth_user w of
        None \<Rightarrow> (Inl (plain_error ''Authentication required''), w)
      | Some usr \<Rightarrow>
          (case insert_order w (channel_order_row (u_id usr) orderData ''bank_transfer'') of
             (Inl m, w1) \<Rightarrow> (Inl (plain_error m), w1)
           | (Inr ord, w1) \<Rightarrow> (Inr (''/payment/bank-transfer?order_id='' @ o_id ord), w1)))"

section \<open>The invoicing client (\<open>zoho-integration\<close>)\<close>



record contact_payload =
  cp_contact_name :: string
  cp_company_name :: string
  cp_email :: string
  cp_phone :: string

record line_item =
  li_name :: string
  li_description :: string
  li_rate :: "number option"
  li_quantity :: nat
  li_item_total :: number

text \<open>
  The invoice payload. A date string \<open>YYYY-MM-DD\<close> is represented by the number of the
  day it names, counted from 1970-01-01; a field the payload leaves out is \<open>None\<close>.
\<close>

record invoice_payload =
  p_customer_id :: string
  p_invoice_number :: "string option"
  p_date :: nat
  p_due_date :: nat
  p_line_items :: "line_item list"
  p_notes :: string
  p_terms :: string
  p_currency_code :: string

text \<open>
  The requests of the provider's API: contacts (create, query by email, query by name)
  and invoices (create, mark sent, fetch by id).
\<close>

datatype api_request =
    CreateContact contact_payload
  | ContactsByEmail string
  | ContactsByName string
  | CreateInvoice invoice_payload
  | MarkInvoiceSent string
  | GetInvoice string













section \<open>Reading results\<close>

definition error_code_of :: "thrown + payment_intent \<Rightarrow> string option" where
  "error_code_of r =
     (case r of
        Inl (Enhanced e) \<Rightarrow> Some (pe_code e)
      | Inl (Plain e) \<Rightarrow> code e
      | Inr _ \<Rightarrow> None)"



section \<open>The resolver as the specification words it\<close>





section \<open>Concrete environments\<close>

definition email_migration :: service where
  "email_migration =
     \<lparr>s_id = ''3f2504e0-4f89-41d3-9a0c-0305e82c3301'', s_name = ''Email Migration & Setup'',
      s_category = ''email'', s_pricing = Some [(''basic'', 4)]\<rparr>"

definition ssl_setup :: service where
  "ssl_setup =
     \<lparr>s_id = ''9b2d7c1e-8a4f-4e6b-b1d2-7c5a3e9f0a12'', s_name = ''SSL & HTTPS Setup'',
      s_category = ''security'',
      s_pricing = Some [(''basic'', 7), (''standard'', 10), (''enterprise'', 25)]\<rparr>"

definition alice :: user where
  "alice = \<lparr>u_id = ''user-1'', email_confirmed_at = Some ''2025-10-01T00:00:00Z''\<rparr>"

definition alice_profile :: client where
  "alice_profile =
     \<lparr>c_id = ''user-1'', c_name = ''Alice'', c_email = ''alice@example.com'',
      c_phone = None, c_company = None\<rparr>"

definition healthy_reply :: fetch_outcome where
  "healthy_reply =
     FetchResponse 200 []
       (Inr \<lparr>j_success = True, j_error = None, j_invoice = None, j_contact_id = None\<rparr>)"

definition invoice_reply :: fetch_outcome where
  "invoice_reply =
     FetchResponse 200 []
       (Inr \<lparr>j_success = True, j_error = None,
             j_invoice = Some \<lparr>invoice_id = ''INV-1'', invoice_number = ''MW-1'',
                                payment_url = ''https://invoice.zoho.in/invoices/INV-1/payment'',
                                total = 200, inv_status = ''draft''\<rparr>,
             j_contact_id = Some ''CUST-1''\<rparr>)"

text \<open>
  A store with two services, a verified user with a profile, no live rates, and an
  invoicing endpoint that rejects every \<open>fetch\<close> with a network time-out.
\<close>

definition world_down :: world where
  "world_down =
     \<lparr>auth_user = Some alice, auth_error = None,
      services = [email_migration, ssl_setup],
      db_fault = (\<lambda>q. None),
      getServiceById = (\<lambda>i. find (\<lambda>s. s_id s = i) [email_migration, ssl_setup]),
      clients = [alice_profile], clients_error = None,
      convertCurrency = None,
      order_rejected = (\<lambda>r. None),
      new_order_id = (\<lambda>n. ''order-'' @ show_nat n),
      audit_available = True,
      transaction_id = ''txn_1'',
      fetch_reply = (\<lambda>n. FetchThrows ''network timeout''),
      orders = [], audit_log = [], delays = [], fetch_log = [], queries = []\<rparr>"


text \<open>
  The invoicing call fails twice with a retryable error (a time-out of the health probe,
  then a temporary outage of the endpoint) and succeeds the third time.
\<close>

definition world_flaky :: world where
  "world_flaky =
     world_down\<lparr>fetch_reply :=
       (\<lambda>n. if n = 0 then FetchThrows ''network timeout''
            else if n = 1 then healthy_reply
            else if n = 2 then FetchResponse 503 ''temporary outage'' (Inl ''Unexpected token'')
            else if n = 3 then healthy_reply
            else invoice_reply)\<rparr>"


text \<open>The store rejects every query on \<open>services\<close>.\<close>

definition world_db_unreachable :: world where
  "world_db_unreachable = world_down\<lparr>db_fault := (\<lambda>q. Some (Throws ''connection refused''))\<rparr>"











text \<open>Requests to the alternative channels: 200 USD, and 0.10 USD.\<close>

definition demo_order_usd :: channel_order_data where
  "demo_order_usd =
     \<lparr>od_serviceId = ''3f2504e0-4f89-41d3-9a0c-0305e82c3301'',
      od_serviceName = ''Email Migration & Setup'', od_packageType = ''basic'',
      od_amount = 200, od_currency = ''USD'',
      od_clientEmail = ''alice@example.com'', od_clientName = ''Alice''\<rparr>"

definition demo_order_small :: channel_order_data where
  "demo_order_small = demo_order_usd\<lparr>od_amount := 1 / 10\<rparr>"

text \<open>The Order row of a 200 USD purchase of the basic e-mail migration package.\<close>

definition demo_order_row :: order where
  "demo_order_row =
     \<lparr>o_id = ''order-0'', client_id = ''user-1'',
      service_id = ''3f2504e0-4f89-41d3-9a0c-0305e82c3301'', package_type = ''basic'',
      amount_usd = 200, amount_inr = 16650, amount_aud = 304, currency = ''USD'',
      status = ''pending'', payment_gateway = ''zoho'',
      zoho_invoice_id = None, zoho_customer_id = None\<rparr>"

text \<open>
  The part of the environment that no operation of the payment code writes: two worlds
  have the same environment when they differ at most in the order rows, the audit log
  and the recorded waits, requests and queries.
\<close>

definition same_environment :: "world \<Rightarrow> world \<Rightarrow> bool" where
  "same_environment w w' =
     (auth_user w' = auth_user w \<and> auth_error w' = auth_error w
      \<and> services w' = services w \<and> db_fault w' = db_fault w
      \<and> getServiceById w' = getServiceById w
      \<and> clients w' = clients w \<and> clients_error w' = clients_error w
      \<and> convertCurrency w' = convertCurrency w
      \<and> order_rejected w' = order_rejected w \<and> new_order_id w' = new_order_id w
      \<and> audit_available w' = audit_available w \<and> transaction_id w' = transaction_id w
      \<and> fetch_reply w' = fetch_reply w)"

section \<open>Properties of service resolution\<close>















section \<open>Properties of the invoicing client\<close>





















section \<open>Properties of the currency amounts\<close>














section \<open>Properties of the alternative channels\<close>

lemma createEmailPayment_accepted:
  assumes "auth_user w = Some u" and "order_rejected w = (\<lambda>r. None)"
  shows "createEmailPayment sn w od =
     (Inr (''mailto:contact@mechinweb.com?subject=''
            @ encodeURIComponent (''Payment for '' @ od_serviceName od @ '' - Order ''
                                    @ new_order_id w (length (orders w)))
            @ ''&body=''
            @ encodeURIComponent (email_body sn od (new_order_id w (length (orders w))))),
      w\<lparr>orders := orders w @
          [(channel_order_row (u_id u) od ''email'')\<lparr>o_id := new_order_id w (length (orders w))\<rparr>]\<rparr>)"
  using assms by (simp add: createEmailPayment_def insert_order_def Let_def)

lemma createBankTransferPayment_accepted:
  assumes "auth_user w = Some u" and "order_rejected w = (\<lambda>r. None)"
  shows "createBankTransferPayment w od =
     (Inr (''/payment/bank-transfer?order_id='' @ new_order_id w (length (orders w))),
      w\<lparr>orders := orders w @
          [(channel_order_row (u_id u) od ''bank_transfer'')\<lparr>o_id := new_order_id w (length (orders w))\<rparr>]\<rparr>)"
  using assms by (simp add: createBankTransferPayment_def insert_order_def Let_def)

text \<open>
  C8, as amended. With an authenticated user and a store that accepts the row, each
  alternative channel appends one Order row and returns its URL: the e-mail channel a
  \<open>mailto:\<close> link with subject and body filled in, the bank-transfer channel the link
  \<open>/payment/bank-transfer?order_id=<id>\<close>. The row agrees with the row of step 6 for
  the same inputs on client, service, package, transaction currency and pending status,
  and carries the gateway tag of the channel. Its amounts are not those of step 6: the
  component of the transaction currency is the amount itself, unrounded, and for a USD
  transaction the other two are the amount times 83.25 and times 1.52, unrounded.
\<close>

theorem alternative_channel_order:
  assumes "auth_user w = Some u" and "order_rejected w = (\<lambda>r. None)"
  shows "createEmailPayment sn w od =
     (Inr (''mailto:contact@mechinweb.com?subject=''
            @ encodeURIComponent (''Payment for '' @ od_serviceName od @ '' - Order ''
                                    @ new_order_id w (length (orders w)))
            @ ''&body=''
            @ encodeURIComponent (email_body sn od (new_order_id w (length (orders w))))),
      w\<lparr>orders := orders w @
          [(channel_order_row (u_id u) od ''email'')\<lparr>o_id := new_order_id w (length (orders w))\<rparr>]\<rparr>)
   \<and> createBankTransferPayment w od =
     (Inr (''/payment/bank-transfer?order_id='' @ new_order_id w (length (orders w))),
      w\<lparr>orders := orders w @
          [(channel_order_row (u_id u) od ''bank_transfer'')\<lparr>o_id := new_order_id w (length (orders w))\<rparr>]\<rparr>)
   \<and> (\<forall>g \<in> {''email'', ''bank_transfer''}.
         client_id (channel_order_row (u_id u) od g)
           = client_id (step6_orderData (u_id u) (od_serviceId od) (od_packageType od)
                          (calculateCurrencyAmounts w (od_amount od) (od_currency od)) (od_currency od))
       \<and> service_id (channel_order_row (u_id u) od g)
           = service_id (step6_orderData (u_id u) (od_serviceId od) (od_packageType od)
                          (calculateCurrencyAmounts w (od_amount od) (od_currency od)) (od_currency od))
       \<and> package_type (channel_order_row (u_id u) od g)
           = package_type (step6_orderData (u_id u) (od_serviceId od) (od_packageType od)
                          (calculateCurrencyAmounts w (od_amount od) (od_currency od)) (od_currency od))
       \<and> currency (channel_order_row (u_id u) od g)
           = currency (step6_orderData (u_id u) (od_serviceId od) (od_packageType od)
                          (calculateCurrencyAmounts w (od_amount od) (od_currency od)) (od_currency od))
       \<and> status (channel_order_row (u_id u) od g)
           = status (step6_orderData (u_id u) (od_serviceId od) (od_packageType od)
                          (calculateCurrencyAmounts w (od_amount od) (od_currency od)) (od_currency od))
       \<and> status (channel_order_row (u_id u) od g) = ''pending''
       \<and> payment_gateway (channel_order_row (u_id u) od g) = g
       \<and> (od_currency od = ''USD'' \<longrightarrow>
             amount_usd (channel_order_row (u_id u) od g) = od_amount od
           \<and> amount_inr (channel_order_row (u_id u) od g) = od_amount od * (8325 / 100)
           \<and> amount_aud (channel_order_row (u_id u) od g) = od_amount od * (152 / 100))
       \<and> (od_currency od = ''INR'' \<longrightarrow> amount_inr (channel_order_row (u_id u) od g) = od_amount od)
       \<and> (od_currency od = ''AUD'' \<longrightarrow> amount_aud (channel_order_row (u_id u) od g) = od_amount od))"
  apply (intro conjI ballI)
              apply (rule createEmailPayment_accepted [OF assms])
             apply (rule createBankTransferPayment_accepted [OF assms])
            apply (simp_all add: channel_order_row_def step6_orderData_def)
  done

theorem alternative_channel_order_witness:
  "auth_user world_down = Some alice
   \<and> order_rejected world_down = (\<lambda>r. None)
   \<and> fst (createBankTransferPayment world_down demo_order_usd)
       = Inr ''/payment/bank-transfer?order_id=order-0''
   \<and> map payment_gateway (orders (snd (createBankTransferPayment world_down demo_order_usd)))
       = [''bank_transfer'']
   \<and> map payment_gateway (orders (snd (createEmailPayment (\<lambda>x. ''200'') world_down demo_order_usd)))
       = [''email'']"
proof -
  have a: "auth_user world_down = Some alice" and b: "order_rejected world_down = (\<lambda>r. None)"
    by (simp_all add: world_down_def)
  have o: "orders world_down = []" by (simp add: world_down_def)
  have i: "new_order_id world_down (length (orders world_down)) = ''order-0''"
    by (simp add: world_down_def show_nat.simps)
  note th = alternative_channel_order [OF a b, where sn = "\<lambda>x. ''200''" and od = demo_order_usd]
  have g: "payment_gateway (channel_order_row (u_id alice) demo_order_usd ''bank_transfer'') = ''bank_transfer''"
    "payment_gateway (channel_order_row (u_id alice) demo_order_usd ''email'') = ''email''"
    by (simp_all add: channel_order_row_def)
  from th [THEN conjunct2, THEN conjunct1] i o g
  have r1: "fst (createBankTransferPayment world_down demo_order_usd)
       = Inr ''/payment/bank-transfer?order_id=order-0''"
    and r2: "map payment_gateway (orders (snd (createBankTransferPayment world_down demo_order_usd)))
       = [''bank_transfer'']"
    by simp_all
  from th [THEN conjunct1] i o g
  have r3: "map payment_gateway (orders (snd (createEmailPayment (\<lambda>x. ''200'') world_down demo_order_usd)))
       = [''email'']"
    by simp
  from a b r1 r2 r3 show ?thesis by (intro conjI)
qed

theorem channel_amounts_differ_counterexample:
  "map amount_inr (orders (snd (createEmailPayment (\<lambda>x. ''0.1'') world_down demo_order_small)))
     = [8325 / 1000]
   \<and> map amount_inr (orders (snd (createBankTransferPayment world_down demo_order_small)))
     = [8325 / 1000]
   \<and> map amount_inr (orders (snd (createPaymentIntentAttempt world_down
        ''3f2504e0-4f89-41d3-9a0c-0305e82c3301'' ''basic'' (1 / 10) ''USD'' 1 ''txn_1'')))
     = [833 / 100]"
  by code_simp

section \<open>Properties of the orchestrator\<close>

lemma same_environment_refl: "same_environment w w"
  by (simp add: same_environment_def)

lemma same_environment_trans:
  "same_environment w w1 \<Longrightarrow> same_environment w1 w2 \<Longrightarrow> same_environment w w2"
  by (simp add: same_environment_def)

lemma db_select_world: "snd (db_select w q rows) = w\<lparr>queries := queries w @ [q]\<rparr>"
  by (simp add: db_select_def Let_def split: option.splits db_fault.splits)

lemma strategy4_world:
  "snd (resolve_strategy4 w x) = w\<lparr>queries := queries (snd (resolve_strategy4 w x))\<rparr>"
  by (simp add: resolve_strategy4_def db_select_def Let_def
      split: option.splits db_fault.splits)

lemma strategy3_world:
  "snd (resolve_strategy3 w x) = w\<lparr>queries := queries (snd (resolve_strategy3 w x))\<rparr>"
proof -
  have "snd (resolve_strategy4 (w\<lparr>queries := q\<rparr>) x)
        = w\<lparr>queries := queries (snd (resolve_strategy4 (w\<lparr>queries := q\<rparr>) x))\<rparr>" for q
    using strategy4_world [of "w\<lparr>queries := q\<rparr>" x] by simp
  then show ?thesis
    by (simp add: resolve_strategy3_def db_select_def Let_def
        split: option.splits db_fault.splits)
qed

lemma strategy2_world:
  "snd (resolve_strategy2 w x) = w\<lparr>queries := queries (snd (resolve_strategy2 w x))\<rparr>"
proof -
  have "snd (resolve_strategy3 (w\<lparr>queries := q\<rparr>) x)
        = w\<lparr>queries := queries (snd (resolve_strategy3 (w\<lparr>queries := q\<rparr>) x))\<rparr>" for q
    using strategy3_world [of "w\<lparr>queries := q\<rparr>" x] by simp
  then show ?thesis
    by (simp add: resolve_strategy2_def db_select_def Let_def
        split: option.splits db_fault.splits)
qed

lemma strategy1_world:
  "snd (resolve_strategy1 w x) = w\<lparr>queries := queries (snd (resolve_strategy1 w x))\<rparr>"
proof -
  have "snd (resolve_strategy2 (w\<lparr>queries := q\<rparr>) x)
        = w\<lparr>queries := queries (snd (resolve_strategy2 (w\<lparr>queries := q\<rparr>) x))\<rparr>" for q
    using strategy2_world [of "w\<lparr>queries := q\<rparr>" x] by simp
  then show ?thesis
    using strategy2_world [of w x]
    by (simp add: resolve_strategy1_def db_select_def Let_def
        split: option.splits db_fault.splits)
qed

lemma resolve_world:
  "snd (resolveServiceWithFallback w x)
   = w\<lparr>queries := queries (snd (resolveServiceWithFallback w x))\<rparr>"
proof (cases "resolve_strategy1 w x")
  case (Pair r w1)
  with strategy1_world [of w x] have "w1 = w\<lparr>queries := queries w1\<rparr>" by simp
  with Pair show ?thesis
    by (cases r) (simp_all add: resolveServiceWithFallback_def)
qed

lemma resolve_depends:
  assumes "services w' = services w" and "db_fault w' = db_fault w"
  shows "fst (resolveServiceWithFallback w' x) = fst (resolveServiceWithFallback w x)"
proof -
  have s4: "fst (resolve_strategy4 v' x) = fst (resolve_strategy4 v x)"
    if "services v' = services v" "db_fault v' = db_fault v" for v v'
    using that
    by (simp add: resolve_strategy4_def db_select_def Let_def
        split: option.splits db_fault.splits)
  have s3: "fst (resolve_strategy3 v' x) = fst (resolve_strategy3 v x)"
    if "services v' = services v" "db_fault v' = db_fault v" for v v'
    using that s4 [of "v'\<lparr>queries := queries v' @ [ServiceByCategory]\<rparr>"
                      "v\<lparr>queries := queries v @ [ServiceByCategory]\<rparr>"]
    by (simp add: resolve_strategy3_def db_select_def Let_def
        split: option.splits db_fault.splits)
  have s2: "fst (resolve_strategy2 v' x) = fst (resolve_strategy2 v x)"
    if "services v' = services v" "db_fault v' = db_fault v" for v v'
    using that s3 [of "v'\<lparr>queries := queries v' @ [ServiceByName]\<rparr>"
                      "v\<lparr>queries := queries v @ [ServiceByName]\<rparr>"]
    by (simp add: resolve_strategy2_def db_select_def Let_def
        split: option.splits db_fault.splits)
  have s1: "fst (resolve_strategy1 w' x) = fst (resolve_strategy1 w x)"
    using assms s2 [of w' w] s2 [of "w'\<lparr>queries := queries w' @ [ServiceById]\<rparr>"
                      "w\<lparr>queries := queries w @ [ServiceById]\<rparr>"]
    by (simp add: resolve_strategy1_def db_select_def Let_def
        split: option.splits db_fault.splits)
  then show ?thesis
    by (cases "resolve_strategy1 w' x"; cases "resolve_strategy1 w x")
       (auto simp add: resolveServiceWithFallback_def split: sum.splits)
qed

lemma resolve_frame:
  "same_environment w (snd (resolveServiceWithFallback w x))
   \<and> orders (snd (resolveServiceWithFallback w x)) = orders w
   \<and> audit_log (snd (resolveServiceWithFallback w x)) = audit_log w"
proof -
  obtain q where "snd (resolveServiceWithFallback w x) = w\<lparr>queries := q\<rparr>"
    using resolve_world [of w x] by blast
  then show ?thesis by (simp add: same_environment_def)
qed

lemma fetch_frame:
  "same_environment w (snd (fetch w r)) \<and> orders (snd (fetch w r)) = orders w
   \<and> audit_log (snd (fetch w r)) = audit_log w"
  by (simp add: fetch_def same_environment_def)

lemma health_frame:
  "same_environment w (snd (checkZohoHealth w)) \<and> orders (snd (checkZohoHealth w)) = orders w
   \<and> audit_log (snd (checkZohoHealth w)) = audit_log w"
  using fetch_frame [of w GET]
  by (cases "fetch w GET") (simp add: checkZohoHealth_def)

lemma invoice_attempt_frame:
  "same_environment w (snd (createZohoInvoiceAttempt w ord service cl quantity t))
   \<and> orders (snd (createZohoInvoiceAttempt w ord service cl quantity t)) = orders w
   \<and> audit_log (snd (createZohoInvoiceAttempt w ord service cl quantity t)) = audit_log w"
proof (cases "checkZohoHealth w")
  case (Pair h w1)
  obtain healthy err where h: "h = (healthy, err)" by (cases h)
  from health_frame [of w] Pair
  have f1: "same_environment w w1" "orders w1 = orders w" "audit_log w1 = audit_log w"
    by simp_all
  show ?thesis
  proof (cases healthy)
    case False
    with Pair h f1 show ?thesis by (simp add: createZohoInvoiceAttempt_def)
  next
    case True
    let ?req = "POST (invoice_request_of ord service cl quantity t)"
    from fetch_frame [of w1 ?req] f1
    have "same_environment w (snd (fetch w1 ?req))" "orders (snd (fetch w1 ?req)) = orders w"
      "audit_log (snd (fetch w1 ?req)) = audit_log w"
      by (auto intro: same_environment_trans)
    with True Pair h show ?thesis
      by (cases "fetch w1 ?req") (simp add: createZohoInvoiceAttempt_def)
  qed
qed

lemma delay_frame:
  "same_environment w (delay w ms) \<and> orders (delay w ms) = orders w
   \<and> audit_log (delay w ms) = audit_log w"
  by (simp add: delay_def same_environment_def)

lemma invoice_retry_frame:
  "same_environment w (snd (createZohoInvoiceWithRetry_from k w ord service cl quantity t))
   \<and> orders (snd (createZohoInvoiceWithRetry_from k w ord service cl quantity t)) = orders w
   \<and> audit_log (snd (createZohoInvoiceWithRetry_from k w ord service cl quantity t)) = audit_log w"
proof (induction k w ord service cl quantity t rule: createZohoInvoiceWithRetry_from.induct)
  case (1 attempt w ord service cl quantity transactionId)
  let ?a = "createZohoInvoiceAttempt w ord service cl quantity transactionId"
  note fr = invoice_attempt_frame [of w ord service cl quantity transactionId]
  note eq = createZohoInvoiceWithRetry_from.simps [of attempt w ord service cl quantity transactionId]
  show ?case
  proof (cases "attempt \<le> MAX_RETRIES")
    case False
    then show ?thesis
      unfolding eq by (simp add: same_environment_refl)
  next
    case le: True
    show ?thesis
    proof (cases ?a)
      case (Pair r w1)
      show ?thesis
      proof (cases r)
        case (Inr res)
        with Pair le fr show ?thesis
          unfolding eq by simp
      next
        case (Inl err)
        show ?thesis
        proof (cases "attempt = MAX_RETRIES")
          case True
          with Inl Pair le fr show ?thesis
            unfolding eq by simp
        next
          case False
          from "1.IH" [OF le Pair [symmetric] Inl False]
          have ih: "same_environment (delay w1 (RETRY_DELAY * attempt))
                 (snd (createZohoInvoiceWithRetry_from (attempt + 1) (delay w1 (RETRY_DELAY * attempt))
                         ord service cl quantity transactionId))
             \<and> orders (snd (createZohoInvoiceWithRetry_from (attempt + 1) (delay w1 (RETRY_DELAY * attempt))
                         ord service cl quantity transactionId)) = orders (delay w1 (RETRY_DELAY * attempt))
             \<and> audit_log (snd (createZohoInvoiceWithRetry_from (attempt + 1) (delay w1 (RETRY_DELAY * attempt))
                         ord service cl quantity transactionId)) = audit_log (delay w1 (RETRY_DELAY * attempt))"
            by simp
          from fr Pair have f1: "same_environment w w1" "orders w1 = orders w" "audit_log w1 = audit_log w"
            by simp_all
          note d = delay_frame [of w1 "RETRY_DELAY * attempt"]
          from f1 d ih have
            "same_environment w (snd (createZohoInvoiceWithRetry_from (attempt + 1) (delay w1 (RETRY_DELAY * attempt))
                         ord service cl quantity transactionId))"
            by (blast intro: same_environment_trans)
          moreover from f1 d ih have
            "orders (snd (createZohoInvoiceWithRetry_from (attempt + 1) (delay w1 (RETRY_DELAY * attempt))
                         ord service cl quantity transactionId)) = orders w"
            "audit_log (snd (createZohoInvoiceWithRetry_from (attempt + 1) (delay w1 (RETRY_DELAY * attempt))
                         ord service cl quantity transactionId)) = audit_log w"
            by simp_all
          ultimately show ?thesis
            unfolding eq using Inl Pair le False by simp
        qed
      qed
    qed
  qed
qed

lemma insert_order_rejected:
  "insert_order w od = (Inl m, w') \<Longrightarrow> w' = w"
  by (auto simp add: insert_order_def Let_def split: option.splits)

lemma insert_order_accepted:
  "insert_order w od = (Inr row, w') \<Longrightarrow> w' = w\<lparr>orders := orders w @ [row]\<rparr>"
  by (auto simp add: insert_order_def Let_def split: option.splits)

lemma update_order_frame:
  "same_environment w (update_order_zoho w oid i c)
   \<and> audit_log (update_order_zoho w oid i c) = audit_log w
   \<and> length (orders (update_order_zoho w oid i c)) = length (orders w)"
  by (simp add: update_order_zoho_def same_environment_def)

lemma logPaymentFailure_frame:
  "same_environment w (logPaymentFailure w t m) \<and> orders (logPaymentFailure w t m) = orders w
   \<and> delays (logPaymentFailure w t m) = delays w"
  by (simp add: logPaymentFailure_def same_environment_def)

lemma attempt_not_verified:
  assumes "auth_user w = Some u" and "auth_error w = None" and "\<not> truthy (email_confirmed_at u)"
  shows "createPaymentIntentAttempt w x p price cur q t =
     (Inl (PaymentError ''EMAIL_NOT_VERIFIED''
        ''Email verification required. Please verify your email before making purchases.''), w)"
  using assms by (simp add: createPaymentIntentAttempt_def)

lemma attempt_service_not_found:
  assumes "auth_user w = Some u" and "auth_error w = None" and "truthy (email_confirmed_at u)"
    and "\<not> truthy (fst (resolveServiceWithFallback w x))"
  shows "createPaymentIntentAttempt w x p price cur q t =
     (Inl (PaymentError ''SERVICE_NOT_FOUND''
        (''Service not found: '' @ x @ ''. Please check the service ID and try again.'')),
      snd (resolveServiceWithFallback w x))"
  using assms
  by (cases "resolveServiceWithFallback w x") (simp add: createPaymentIntentAttempt_def)


lemma attempt_frame:
  "same_environment w (snd (createPaymentIntentAttempt w x p price cur q t))
   \<and> audit_log (snd (createPaymentIntentAttempt w x p price cur q t)) = audit_log w
   \<and> length (orders w) \<le> length (orders (snd (createPaymentIntentAttempt w x p price cur q t)))
   \<and> length (orders (snd (createPaymentIntentAttempt w x p price cur q t))) \<le> Suc (length (orders w))
   \<and> (\<forall>r. fst (createPaymentIntentAttempt w x p price cur q t) = Inr r \<longrightarrow>
         length (orders (snd (createPaymentIntentAttempt w x p price cur q t))) = Suc (length (orders w)))"
  (is "?G (createPaymentIntentAttempt w x p price cur q t)")
proof -
  let ?A = "createPaymentIntentAttempt w x p price cur q t"
  have stay: "?G (Inl e, w)" for e
    by (simp add: same_environment_refl)
  show ?thesis
  proof (cases "auth_user w")
    case None
    then have "?A = (Inl (PaymentError ''AUTH_REQUIRED''
                 ''Authentication required. Please log in to continue.''), w)"
      by (simp add: createPaymentIntentAttempt_def)
    with stay show ?thesis by simp
  next
    case (Some usr)
    show ?thesis
    proof (cases "auth_error w \<noteq> None")
      case True
      with Some have "?A = (Inl (PaymentError ''AUTH_REQUIRED''
                 ''Authentication required. Please log in to continue.''), w)"
        by (simp add: createPaymentIntentAttempt_def)
      with stay show ?thesis by simp
    next
      case False
      then have ae: "auth_error w = None" by simp
      show ?thesis
      proof (cases "truthy (email_confirmed_at usr)")
        case False
        from attempt_not_verified [OF Some ae False, of x p price cur q t] stay
        show ?thesis by simp
      next
        case verified: True
        obtain resolved w1 where res: "resolveServiceWithFallback w x = (resolved, w1)"
          by (cases "resolveServiceWithFallback w x")
        from resolve_frame [of w x] res
        have f1: "same_environment w w1" "orders w1 = orders w" "audit_log w1 = audit_log w"
          by simp_all
        have early: "?G (Inl e, w1)" for e
          using f1 by simp
        show ?thesis
        proof (cases "truthy resolved")
          case False
          with res attempt_service_not_found [OF Some ae verified, of x p price cur q t] early
          show ?thesis by simp
        next
          case found: True
          let ?sid = "or_else resolved []"
          show ?thesis
          proof (cases "getServiceById w1 ?sid")
            case None
            with Some ae verified res found
            have "?A = (Inl (PaymentError ''SERVICE_DATA_MISSING''
                             (''Service data not found for ID: '' @ ?sid)), w1)"
              by (simp add: createPaymentIntentAttempt_def)
            with early show ?thesis by simp
          next
            case svc: (Some service)
            show ?thesis
            proof (cases "package_available service p")
              case False
              with Some ae verified res found svc
              have "?A = (Inl (PaymentError ''INVALID_PACKAGE''
                       (''Package type '' @ [CHR 0x22] @ p @ [CHR 0x22]
                          @ '' not available for '' @ s_name service)), w1)"
                by (simp add: createPaymentIntentAttempt_def)
              with early show ?thesis by simp
            next
              case pkg: True
              let ?profiles = "filter (\<lambda>c. c_id c = u_id usr) (clients w1)"
              show ?thesis
              proof (cases "clients_error w1 \<noteq> None \<or> length ?profiles > 1")
                case True
                with Some ae verified res found svc pkg
                have "?A = (Inl (PaymentError ''CLIENT_PROFILE_ERROR''
                                   ''Failed to load client profile. Please try again.''), w1)"
                  by (simp add: createPaymentIntentAttempt_def Let_def)
                with early show ?thesis by simp
              next
                case one: False
                show ?thesis
                proof (cases ?profiles)
                  case Nil
                  with Some ae verified res found svc pkg one
                  have "?A = (Inl (PaymentError ''CLIENT_PROFILE_MISSING''
                                ''Client profile not found. Please complete your profile setup.''), w1)"
                    by (simp add: createPaymentIntentAttempt_def Let_def)
                  with early show ?thesis by simp
                next
                  case (Cons clientProfile rest)
                  let ?od = "step6_orderData (u_id usr) ?sid p
                               (calculateCurrencyAmounts w1 price cur) cur"
                  obtain ir w2 where ins: "insert_order w1 ?od = (ir, w2)"
                    by (cases "insert_order w1 ?od")
                  show ?thesis
                  proof (cases ir)
                    case (Inl m)
                    with ins insert_order_rejected have "w2 = w1" by blast
                    moreover from Some ae verified res found svc pkg one Cons ins Inl
                    have "?A = (Inl (PaymentError ''ORDER_CREATION_FAILED''
                                      (''Failed to create order: '' @ m)), w2)"
                      by (simp add: createPaymentIntentAttempt_def Let_def)
                    ultimately show ?thesis using early by simp
                  next
                    case (Inr ord)
                    with ins insert_order_accepted
                    have w2: "w2 = w1\<lparr>orders := orders w1 @ [ord]\<rparr>" by blast
                    with f1 have f2: "same_environment w w2" "audit_log w2 = audit_log w"
                      "length (orders w2) = Suc (length (orders w))"
                      by (simp_all add: same_environment_def)
                    obtain zr w3 where z: "createZohoInvoiceWithRetry w2 ord service clientProfile q t = (zr, w3)"
                      by (cases "createZohoInvoiceWithRetry w2 ord service clientProfile q t")
                    from invoice_retry_frame [of w2 1 ord service clientProfile q t] z
                    have "same_environment w2 w3" "orders w3 = orders w2" "audit_log w3 = audit_log w2"
                      by (simp_all add: createZohoInvoiceWithRetry_def)
                    with f2 have f3: "same_environment w w3" "audit_log w3 = audit_log w"
                      "length (orders w3) = Suc (length (orders w))"
                      by (auto intro: same_environment_trans)
                    show ?thesis
                    proof (cases zr)
                      case failed: (Inl e)
                      from Some ae verified res found svc pkg one Cons ins Inr z failed
                      have "?A = (Inl e, w3)"
                        by (simp add: createPaymentIntentAttempt_def Let_def)
                      with f3 show ?thesis by simp
                    next
                      case ok: (Inr zohoResult)
                      let ?w4 = "update_order_zoho w3 (o_id ord) (pi_invoice_id zohoResult)
                                   (pi_customer_id zohoResult)"
                      from Some ae verified res found svc pkg one Cons ins Inr z ok
                      have a: "?A = (Inr (zohoResult\<lparr>pi_transaction_id := t\<rparr>), ?w4)"
                        by (simp add: createPaymentIntentAttempt_def Let_def)
                      from update_order_frame [of w3 "o_id ord" "pi_invoice_id zohoResult"
                             "pi_customer_id zohoResult"] f3
                      have "same_environment w ?w4" "audit_log ?w4 = audit_log w"
                        "length (orders ?w4) = Suc (length (orders w))"
                        by (auto intro: same_environment_trans)
                      with a show ?thesis by simp
                    qed
                  qed
                qed
              qed
            qed
          qed
        qed
      qed
    qed
  qed
qed

lemma intent_loop_frame:
  "same_environment w (snd (createPaymentIntent_from k w x p price cur q t))
   \<and> length (orders (snd (createPaymentIntent_from k w x p price cur q t)))
       \<le> length (orders w) + (MAX_RETRIES + 1 - k)"
proof (induction k w x p price cur q t rule: createPaymentIntent_from.induct)
  case (1 attempt w x p price cur q t)
  note eq = createPaymentIntent_from.simps [of attempt w x p price cur q t]
  note fr = attempt_frame [of w x p price cur q t]
  show ?case
  proof (cases "attempt \<le> MAX_RETRIES")
    case False
    then show ?thesis unfolding eq by (simp add: same_environment_refl)
  next
    case le: True
    obtain r w1 where a: "createPaymentIntentAttempt w x p price cur q t = (r, w1)"
      by (cases "createPaymentIntentAttempt w x p price cur q t")
    from fr a have f1: "same_environment w w1" "length (orders w1) \<le> Suc (length (orders w))"
      by simp_all
    show ?thesis
    proof (cases r)
      case (Inr res)
      with a le f1 show ?thesis unfolding eq by simp
    next
      case (Inl err)
      show ?thesis
      proof (cases "attempt = MAX_RETRIES \<or> \<not> isRetryableError err")
        case True
        from logPaymentFailure_frame [of w1 t "message err"] f1
        have "same_environment w (logPaymentFailure w1 t (message err))"
          "length (orders (logPaymentFailure w1 t (message err))) \<le> Suc (length (orders w))"
          by (auto intro: same_environment_trans)
        with True Inl a le show ?thesis unfolding eq by auto
      next
        case False
        let ?w2 = "delay w1 (RETRY_DELAY * 2 ^ (attempt - 1))"
        from False have ne: "attempt \<noteq> MAX_RETRIES" and re: "isRetryableError err" by simp_all
        from "1.IH" [OF le a [symmetric] Inl False]
        have ih: "same_environment ?w2 (snd (createPaymentIntent_from (attempt + 1) ?w2 x p price cur q t))"
          "length (orders (snd (createPaymentIntent_from (attempt + 1) ?w2 x p price cur q t)))
             \<le> length (orders ?w2) + (MAX_RETRIES + 1 - (attempt + 1))"
          by simp_all
        from delay_frame [of w1 "RETRY_DELAY * 2 ^ (attempt - 1)"] f1
        have f2: "same_environment w ?w2" "length (orders ?w2) \<le> Suc (length (orders w))"
          by (auto intro: same_environment_trans)
        from f2 ih have
          "same_environment w (snd (createPaymentIntent_from (attempt + 1) ?w2 x p price cur q t))"
          by (blast intro: same_environment_trans)
        moreover from f2 ih le ne have
          "length (orders (snd (createPaymentIntent_from (attempt + 1) ?w2 x p price cur q t)))
             \<le> length (orders w) + (MAX_RETRIES + 1 - attempt)"
          by linarith
        ultimately show ?thesis
          unfolding eq using Inl a le ne re by simp
      qed
    qed
  qed
qed

text \<open>
  An error that every attempt raises before it writes an order, in every world with the
  same environment, is the error of the call, and the call writes no order.
\<close>

lemma intent_loop_persistent_error:
  assumes always: "\<And>v. same_environment w v \<Longrightarrow>
            fst (createPaymentIntentAttempt v x p price cur q t) = Inl e
            \<and> orders (snd (createPaymentIntentAttempt v x p price cur q t)) = orders v"
    and env: "same_environment w v" and k: "k \<le> MAX_RETRIES"
  shows "fst (createPaymentIntent_from k v x p price cur q t) = Inl (Enhanced (enhanceError e t))
         \<and> orders (snd (createPaymentIntent_from k v x p price cur q t)) = orders v"
  using env k
proof (induction "MAX_RETRIES - k" arbitrary: k v)
  case 0
  note eq = createPaymentIntent_from.simps [of k v x p price cur q t]
  obtain r v1 where a: "createPaymentIntentAttempt v x p price cur q t = (r, v1)"
    by (cases "createPaymentIntentAttempt v x p price cur q t")
  from always [OF "0.prems"(1)] a have r: "r = Inl e" and o: "orders v1 = orders v"
    by simp_all
  from "0.hyps" "0.prems"(2) have "k = MAX_RETRIES" by simp
  with a r o logPaymentFailure_frame [of v1 t "message e"]
  show ?case unfolding eq by simp
next
  case (Suc n)
  note eq = createPaymentIntent_from.simps [of k v x p price cur q t]
  obtain r v1 where a: "createPaymentIntentAttempt v x p price cur q t = (r, v1)"
    by (cases "createPaymentIntentAttempt v x p price cur q t")
  from always [OF Suc.prems(1)] a have r: "r = Inl e" and o: "orders v1 = orders v"
    by simp_all
  from attempt_frame [of v x p price cur q t] a have e1: "same_environment v v1" by simp
  from Suc.hyps(2) have lt: "k < MAX_RETRIES" by simp
  show ?case
  proof (cases "isRetryableError e")
    case False
    with a r o lt logPaymentFailure_frame [of v1 t "message e"]
    show ?thesis unfolding eq by simp
  next
    case True
    let ?v2 = "delay v1 (RETRY_DELAY * 2 ^ (k - 1))"
    from delay_frame [of v1 "RETRY_DELAY * 2 ^ (k - 1)"] e1 Suc.prems(1)
    have e2: "same_environment w ?v2" and o2: "orders ?v2 = orders v1"
      by (auto intro: same_environment_trans)
    from Suc.hyps(2) have n: "n = MAX_RETRIES - (k + 1)" by simp
    from lt have le: "k + 1 \<le> MAX_RETRIES" by simp
    from Suc.hyps(1) [OF n e2 le] o o2
    have "fst (createPaymentIntent_from (k + 1) ?v2 x p price cur q t)
            = Inl (Enhanced (enhanceError e t))
          \<and> orders (snd (createPaymentIntent_from (k + 1) ?v2 x p price cur q t)) = orders v"
      by simp
    with True a r lt show ?thesis unfolding eq by simp
  qed
qed

lemma error_code_enhanced:
  "c \<noteq> [] \<Longrightarrow> error_code_of (Inl (Enhanced (enhanceError (PaymentError c m) t))) = Some c"
  by (simp add: error_code_of_def enhanceError_def PaymentError_def)

lemma same_environment_auth:
  "same_environment w v \<Longrightarrow> auth_user v = auth_user w \<and> auth_error v = auth_error w
     \<and> getServiceById v = getServiceById w"
  by (simp add: same_environment_def)

lemma same_environment_resolve:
  "same_environment w v \<Longrightarrow>
   fst (resolveServiceWithFallback v x) = fst (resolveServiceWithFallback w x)"
  by (rule resolve_depends) (simp_all add: same_environment_def)

lemma attempt_orders_untouched_by_resolve:
  "orders (snd (resolveServiceWithFallback v x)) = orders v"
  using resolve_frame [of v x] by simp



lemma strategy2_throws:
  "db_fault w ServiceByName = Some (Throws m) \<Longrightarrow> fst (resolve_strategy2 w x) = Inl (plain_error m)"
  by (simp add: resolve_strategy2_def db_select_def)

lemma strategy1_throws:
  assumes "\<forall>q. db_fault w q = Some (Throws m)"
  shows "fst (resolve_strategy1 w x) = Inl (plain_error m)"
proof (cases "uuidRegex x")
  case True
  with assms show ?thesis by (simp add: resolve_strategy1_def db_select_def)
next
  case False
  with assms strategy2_throws [of w m x] show ?thesis by (simp add: resolve_strategy1_def)
qed

lemma resolve_catches:
  "fst (resolve_strategy1 w x) = Inl e \<Longrightarrow> fst (resolveServiceWithFallback w x) = None"
  by (cases "resolve_strategy1 w x") (simp add: resolveServiceWithFallback_def)

text \<open>
  C10. Whatever error the \<open>try\<close> block of the resolver raises, the resolver returns
  \<open>null\<close>; it does so in particular when the store rejects every query. For a verified
  user, \<open>createPaymentIntent\<close> then fails with \<open>SERVICE_NOT_FOUND\<close>, and the error it
  throws is the one it throws for any identifier that resolves to \<open>null\<close>: it is made of
  the identifier and the transaction id only, and carries nothing of the original error.
\<close>

theorem resolver_errors_reported_as_not_found:
  "(fst (resolve_strategy1 w x) = Inl e \<longrightarrow> fst (resolveServiceWithFallback w x) = None)
   \<and> ((\<forall>k. db_fault w k = Some (Throws m)) \<longrightarrow> fst (resolveServiceWithFallback w x) = None)
   \<and> (auth_user w = Some u \<and> auth_error w = None \<and> truthy (email_confirmed_at u)
       \<and> fst (resolveServiceWithFallback w x) = None \<longrightarrow>
        fst (createPaymentIntent w x p price cur q)
          = Inl (Enhanced (enhanceError
                  (PaymentError ''SERVICE_NOT_FOUND''
                     (''Service not found: '' @ x @ ''. Please check the service ID and try again.''))
                  (transaction_id w)))
        \<and> error_code_of (fst (createPaymentIntent w x p price cur q)) = Some ''SERVICE_NOT_FOUND''
        \<and> orders (snd (createPaymentIntent w x p price cur q)) = orders w)"
proof (intro conjI impI)
  assume "fst (resolve_strategy1 w x) = Inl e"
  then show "fst (resolveServiceWithFallback w x) = None" by (rule resolve_catches)
next
  assume "\<forall>k. db_fault w k = Some (Throws m)"
  from resolve_catches [OF strategy1_throws [OF this]]
  show "fst (resolveServiceWithFallback w x) = None" .
next
  assume h: "auth_user w = Some u \<and> auth_error w = None \<and> truthy (email_confirmed_at u)
       \<and> fst (resolveServiceWithFallback w x) = None"
  let ?e = "PaymentError ''SERVICE_NOT_FOUND''
              (''Service not found: '' @ x @ ''. Please check the service ID and try again.'')"
  have always: "fst (createPaymentIntentAttempt v x p price cur q (transaction_id w)) = Inl ?e
       \<and> orders (snd (createPaymentIntentAttempt v x p price cur q (transaction_id w))) = orders v"
    if "same_environment w v" for v
  proof -
    from same_environment_auth [OF that] h
    have a: "auth_user v = Some u" "auth_error v = None" "truthy (email_confirmed_at u)"
      by simp_all
    from same_environment_resolve [OF that, of x] h
    have r: "\<not> truthy (fst (resolveServiceWithFallback v x))" by (simp add: truthy_def)
    from attempt_service_not_found [OF a r, of p price cur q "transaction_id w"]
      attempt_orders_untouched_by_resolve [of v x]
    show ?thesis by simp
  qed
  have one: "1 \<le> MAX_RETRIES" by (simp add: MAX_RETRIES_def)
  note r = intent_loop_persistent_error [of w x p price cur q "transaction_id w" ?e w 1,
             OF always same_environment_refl one]
  from r show f: "fst (createPaymentIntent w x p price cur q)
          = Inl (Enhanced (enhanceError ?e (transaction_id w)))"
    by (simp add: createPaymentIntent_def)
  show "error_code_of (fst (createPaymentIntent w x p price cur q)) = Some ''SERVICE_NOT_FOUND''"
    unfolding f by (simp add: error_code_enhanced)
  from r show "orders (snd (createPaymentIntent w x p price cur q)) = orders w"
    by (simp add: createPaymentIntent_def)
qed

theorem resolver_errors_reported_as_not_found_witness:
  "fst (resolve_strategy1 world_db_unreachable ''3f2504e0-4f89-41d3-9a0c-0305e82c3301'')
     = Inl (plain_error ''connection refused'')
   \<and> (\<forall>k. db_fault world_db_unreachable k = Some (Throws ''connection refused''))
   \<and> fst (resolveServiceWithFallback world_db_unreachable ''3f2504e0-4f89-41d3-9a0c-0305e82c3301'') = None
   \<and> error_code_of (fst (createPaymentIntent world_db_unreachable
        ''3f2504e0-4f89-41d3-9a0c-0305e82c3301'' ''basic'' 200 ''USD'' 50)) = Some ''SERVICE_NOT_FOUND''
   \<and> orders (snd (createPaymentIntent world_db_unreachable
        ''3f2504e0-4f89-41d3-9a0c-0305e82c3301'' ''basic'' 200 ''USD'' 50)) = []"
proof -
  have t: "fst (resolve_strategy1 world_db_unreachable ''3f2504e0-4f89-41d3-9a0c-0305e82c3301'')
     = Inl (plain_error ''connection refused'')"
    by code_simp
  have f: "\<forall>k. db_fault world_db_unreachable k = Some (Throws ''connection refused'')"
    by (simp add: world_db_unreachable_def)
  have a: "auth_user world_db_unreachable = Some alice" "auth_error world_db_unreachable = None"
    and o: "orders world_db_unreachable = []"
    by (simp_all add: world_db_unreachable_def world_down_def)
  have v: "truthy (email_confirmed_at alice)" by (simp add: truthy_def alice_def)
  note th = resolver_errors_reported_as_not_found [where w = world_db_unreachable
              and x = "''3f2504e0-4f89-41d3-9a0c-0305e82c3301''" and m = "''connection refused''"
              and e = "plain_error ''connection refused''"
              and u = alice and p = "''basic''" and price = 200 and cur = "''USD''" and q = 50]
  note n = th [THEN conjunct1, THEN mp, OF t]
  note n' = th [THEN conjunct2, THEN conjunct1, THEN mp, OF f]
  from a v n' have h: "auth_user world_db_unreachable = Some alice \<and> auth_error world_db_unreachable = None
       \<and> truthy (email_confirmed_at alice)
       \<and> fst (resolveServiceWithFallback world_db_unreachable ''3f2504e0-4f89-41d3-9a0c-0305e82c3301'') = None"
    by (intro conjI)
  note r = th [THEN conjunct2, THEN conjunct2, THEN mp, OF h]
  note c = r [THEN conjunct2, THEN conjunct1]
  from r [THEN conjunct2, THEN conjunct2] o
  have "orders (snd (createPaymentIntent world_db_unreachable
        ''3f2504e0-4f89-41d3-9a0c-0305e82c3301'' ''basic'' 200 ''USD'' 50)) = []"
    by simp
  with t f n c show ?thesis by (intro conjI)
qed

section \<open>Retries, orders and the audit log\<close>

lemma invoice_retry_unrolled:
  assumes a1: "createZohoInvoiceAttempt w ord service cl q t = (Inl e1, w1)"
    and a2: "createZohoInvoiceAttempt (delay w1 1000) ord service cl q t = (Inl e2, w2)"
    and a3: "createZohoInvoiceAttempt (delay w2 2000) ord service cl q t = (res, w3)"
  shows "createZohoInvoiceWithRetry w ord service cl q t = (res, w3)"
proof -
  have s1: "createZohoInvoiceWithRetry_from 1 w ord service cl q t
            = createZohoInvoiceWithRetry_from (1 + 1) (delay w1 (RETRY_DELAY * 1)) ord service cl q t"
    by (subst createZohoInvoiceWithRetry_from.simps) (simp add: a1 MAX_RETRIES_def)
  have s2: "createZohoInvoiceWithRetry_from (1 + 1) (delay w1 (RETRY_DELAY * 1)) ord service cl q t
            = createZohoInvoiceWithRetry_from (1 + 1 + 1) (delay w2 (RETRY_DELAY * (1 + 1)))
                ord service cl q t"
    by (subst createZohoInvoiceWithRetry_from.simps) (simp add: a2 MAX_RETRIES_def RETRY_DELAY_def)
  have s3: "createZohoInvoiceWithRetry_from (1 + 1 + 1) (delay w2 (RETRY_DELAY * (1 + 1)))
                ord service cl q t = (res, w3)"
    by (subst createZohoInvoiceWithRetry_from.simps)
       (cases res; simp add: a3 MAX_RETRIES_def RETRY_DELAY_def)
  show ?thesis
    by (simp only: createZohoInvoiceWithRetry_def s1 s2 s3)
qed

lemma invoice_attempt_requests:
  "set (fetch_log (snd (createZohoInvoiceAttempt w ord service cl q t)))
     \<subseteq> set (fetch_log w) \<union> {GET, POST (invoice_request_of ord service cl q t)}"
  by (auto simp add: createZohoInvoiceAttempt_def checkZohoHealth_def fetch_def
      split: prod.splits if_splits)

lemma invoice_retry_requests:
  "set (fetch_log (snd (createZohoInvoiceWithRetry_from k w ord service cl q t)))
     \<subseteq> set (fetch_log w) \<union> {GET, POST (invoice_request_of ord service cl q t)}"
proof (induction k w ord service cl q t rule: createZohoInvoiceWithRetry_from.induct)
  case (1 attempt w ord service cl quantity transactionId)
  note eq = createZohoInvoiceWithRetry_from.simps [of attempt w ord service cl quantity transactionId]
  let ?R = "{GET, POST (invoice_request_of ord service cl quantity transactionId)}"
  show ?case
  proof (cases "attempt \<le> MAX_RETRIES")
    case False
    then show ?thesis unfolding eq by auto
  next
    case le: True
    obtain r w1 where a: "createZohoInvoiceAttempt w ord service cl quantity transactionId = (r, w1)"
      by (cases "createZohoInvoiceAttempt w ord service cl quantity transactionId")
    from invoice_attempt_requests [of w ord service cl quantity transactionId] a
    have f1: "set (fetch_log w1) \<subseteq> set (fetch_log w) \<union> ?R" by simp
    show ?thesis
    proof (cases r)
      case (Inr res)
      with a le f1 show ?thesis unfolding eq by simp
    next
      case (Inl err)
      show ?thesis
      proof (cases "attempt = MAX_RETRIES")
        case True
        with Inl a le f1 show ?thesis unfolding eq by simp
      next
        case False
        let ?w2 = "delay w1 (RETRY_DELAY * attempt)"
        have d: "fetch_log ?w2 = fetch_log w1" by (simp add: delay_def)
        from "1.IH" [OF le a [symmetric] Inl False] d f1
        have "set (fetch_log (snd (createZohoInvoiceWithRetry_from (attempt + 1) ?w2
                 ord service cl quantity transactionId))) \<subseteq> set (fetch_log w) \<union> ?R"
          by auto
        with Inl a le False show ?thesis unfolding eq by simp
      qed
    qed
  qed
qed

lemma intent_first_attempt_succeeds:
  assumes "createPaymentIntentAttempt w x p price cur q (transaction_id w) = (Inr r, w')"
  shows "createPaymentIntent w x p price cur q = (Inr r, w')"
  unfolding createPaymentIntent_def
  by (subst createPaymentIntent_from.simps) (simp add: assms MAX_RETRIES_def)

text \<open>
  C1, as amended. Retries of the invoicing step create no Order row: the retry loop of
  the invoicing call leaves \<open>orders\<close> as it is and sends, besides the health probe, only
  the request built from the one Order it was given. One run of
  \<open>createPaymentIntentAttempt\<close> creates at most one Order row. \<open>createPaymentIntent\<close>
  re-runs the whole attempt, insert included, when an attempt fails with a retryable
  error, so one call creates at most three Order rows. If the invoicing call raises an
  error twice and succeeds the third time, the invoicing step succeeds with the same
  orders; and when the first attempt of a call succeeds, the call returns its payment
  intent and exactly one Order row has been created.
\<close>

theorem invoice_retries_reuse_order:
  "orders (snd (createZohoInvoiceWithRetry w ord service cl q t)) = orders w
   \<and> set (fetch_log (snd (createZohoInvoiceWithRetry w ord service cl q t)))
        \<subseteq> set (fetch_log w) \<union> {GET, POST (invoice_request_of ord service cl q t)}
   \<and> length (orders (snd (createPaymentIntentAttempt w x p price cur q t))) \<le> Suc (length (orders w))
   \<and> length (orders (snd (createPaymentIntent w x p price cur q))) \<le> length (orders w) + 3
   \<and> (createZohoInvoiceAttempt w ord service cl q t = (Inl e1, w1)
       \<and> createZohoInvoiceAttempt (delay w1 1000) ord service cl q t = (Inl e2, w2)
       \<and> createZohoInvoiceAttempt (delay w2 2000) ord service cl q t = (Inr r, w3)
       \<longrightarrow> createZohoInvoiceWithRetry w ord service cl q t = (Inr r, w3) \<and> orders w3 = orders w)
   \<and> (createPaymentIntentAttempt w x p price cur q (transaction_id w) = (Inr r', w')
       \<longrightarrow> createPaymentIntent w x p price cur q = (Inr r', w')
           \<and> length (orders w') = Suc (length (orders w)))"
proof (intro conjI impI)
  show o: "orders (snd (createZohoInvoiceWithRetry w ord service cl q t)) = orders w"
    using invoice_retry_frame [of w 1 ord service cl q t]
    by (simp add: createZohoInvoiceWithRetry_def)
  show "set (fetch_log (snd (createZohoInvoiceWithRetry w ord service cl q t)))
        \<subseteq> set (fetch_log w) \<union> {GET, POST (invoice_request_of ord service cl q t)}"
    using invoice_retry_requests [of 1 w ord service cl q t]
    by (simp add: createZohoInvoiceWithRetry_def)
  show "length (orders (snd (createPaymentIntentAttempt w x p price cur q t))) \<le> Suc (length (orders w))"
    using attempt_frame [of w x p price cur q t] by simp
  show "length (orders (snd (createPaymentIntent w x p price cur q))) \<le> length (orders w) + 3"
    using intent_loop_frame [of w 1 x p price cur q "transaction_id w"]
    by (simp add: createPaymentIntent_def MAX_RETRIES_def)
next
  assume h: "createZohoInvoiceAttempt w ord service cl q t = (Inl e1, w1)
       \<and> createZohoInvoiceAttempt (delay w1 1000) ord service cl q t = (Inl e2, w2)
       \<and> createZohoInvoiceAttempt (delay w2 2000) ord service cl q t = (Inr r, w3)"
  then have a1: "createZohoInvoiceAttempt w ord service cl q t = (Inl e1, w1)"
    and a2: "createZohoInvoiceAttempt (delay w1 1000) ord service cl q t = (Inl e2, w2)"
    and a3: "createZohoInvoiceAttempt (delay w2 2000) ord service cl q t = (Inr r, w3)"
    by simp_all
  show s: "createZohoInvoiceWithRetry w ord service cl q t = (Inr r, w3)"
    by (rule invoice_retry_unrolled [OF a1 a2 a3])
  from invoice_retry_frame [of w 1 ord service cl q t] s
  show "orders w3 = orders w" by (simp add: createZohoInvoiceWithRetry_def)
next
  assume h: "createPaymentIntentAttempt w x p price cur q (transaction_id w) = (Inr r', w')"
  show "createPaymentIntent w x p price cur q = (Inr r', w')"
    by (rule intent_first_attempt_succeeds [OF h])
  from attempt_frame [of w x p price cur q "transaction_id w"] h
  show "length (orders w') = Suc (length (orders w))" by simp
qed

theorem invoice_retries_reuse_order_witness:
  "fst (createZohoInvoiceAttempt world_flaky demo_order_row email_migration alice_profile 50 ''txn_1'')
     = Inl (PaymentError ''ZOHO_UNAVAILABLE'' ''Zoho integration unavailable: network timeout'')
   \<and> fst (createZohoInvoiceWithRetry world_flaky demo_order_row email_migration alice_profile 50 ''txn_1'')
     = Inr \<lparr>pi_invoice_id = ''INV-1'', pi_invoice_number = ''MW-1'',
            pi_payment_url = ''https://invoice.zoho.in/invoices/INV-1/payment'',
            pi_total = 200, pi_status = ''draft'', pi_customer_id = ''CUST-1'',
            pi_transaction_id = ''txn_1''\<rparr>
   \<and> fst (createPaymentIntent world_flaky ''3f2504e0-4f89-41d3-9a0c-0305e82c3301'' ''basic'' 200 ''USD'' 50)
     = Inr \<lparr>pi_invoice_id = ''INV-1'', pi_invoice_number = ''MW-1'',
            pi_payment_url = ''https://invoice.zoho.in/invoices/INV-1/payment'',
            pi_total = 200, pi_status = ''draft'', pi_customer_id = ''CUST-1'',
            pi_transaction_id = ''txn_1''\<rparr>
   \<and> length (orders (snd (createPaymentIntent world_flaky ''3f2504e0-4f89-41d3-9a0c-0305e82c3301''
        ''basic'' 200 ''USD'' 50))) = 1"
proof -
  let ?r = "\<lparr>pi_invoice_id = ''INV-1'', pi_invoice_number = ''MW-1'',
            pi_payment_url = ''https://invoice.zoho.in/invoices/INV-1/payment'',
            pi_total = 200, pi_status = ''draft'', pi_customer_id = ''CUST-1'',
            pi_transaction_id = ''txn_1''\<rparr>"
  let ?e1 = "PaymentError ''ZOHO_UNAVAILABLE'' ''Zoho integration unavailable: network timeout''"
  let ?e2 = "PaymentError ''ZOHO_API_ERROR'' ''Payment gateway error: temporary outage''"
  let ?A1 = "createZohoInvoiceAttempt world_flaky demo_order_row email_migration alice_profile 50 ''txn_1''"
  let ?A2 = "createZohoInvoiceAttempt (delay (snd ?A1) 1000) demo_order_row email_migration alice_profile 50 ''txn_1''"
  let ?A3 = "createZohoInvoiceAttempt (delay (snd ?A2) 2000) demo_order_row email_migration alice_profile 50 ''txn_1''"
  let ?P = "createPaymentIntentAttempt world_flaky ''3f2504e0-4f89-41d3-9a0c-0305e82c3301''
              ''basic'' 200 ''USD'' 50 (transaction_id world_flaky)"
  have f1: "fst ?A1 = Inl ?e1" by code_simp
  have f2: "fst ?A2 = Inl ?e2" by code_simp
  have f3: "fst ?A3 = Inr ?r" by code_simp
  have fp: "fst ?P = Inr ?r" by code_simp
  have o: "orders world_flaky = []" by (simp add: world_flaky_def world_down_def)
  from f1 have a1: "?A1 = (Inl ?e1, snd ?A1)" by (simp add: prod_eq_iff)
  from f2 have a2: "?A2 = (Inl ?e2, snd ?A2)" by (simp add: prod_eq_iff)
  from f3 have a3: "?A3 = (Inr ?r, snd ?A3)" by (simp add: prod_eq_iff)
  from fp have ap: "?P = (Inr ?r, snd ?P)" by (simp add: prod_eq_iff)
  from a1 a2 a3 have h1: "?A1 = (Inl ?e1, snd ?A1) \<and> ?A2 = (Inl ?e2, snd ?A2) \<and> ?A3 = (Inr ?r, snd ?A3)"
    by (intro conjI)
  note th = invoice_retries_reuse_order [where w = world_flaky and ord = demo_order_row
      and service = email_migration and cl = alice_profile and q = 50 and t = "''txn_1''"
      and x = "''3f2504e0-4f89-41d3-9a0c-0305e82c3301''" and p = "''basic''" and price = 200
      and cur = "''USD''" and ?e1.0 = ?e1 and ?w1.0 = "snd ?A1" and ?e2.0 = ?e2 and ?w2.0 = "snd ?A2"
      and r = ?r and ?w3.0 = "snd ?A3" and r' = ?r and w' = "snd ?P"]
  note c1 = th [THEN conjunct2, THEN conjunct2, THEN conjunct2, THEN conjunct2, THEN conjunct1,
                THEN mp, OF h1, THEN conjunct1]
  note c2 = th [THEN conjunct2, THEN conjunct2, THEN conjunct2, THEN conjunct2, THEN conjunct2,
                THEN mp, OF ap]
  from c1 have r1: "fst (createZohoInvoiceWithRetry world_flaky demo_order_row email_migration
                          alice_profile 50 ''txn_1'') = Inr ?r"
    by simp
  from c2 [THEN conjunct1] have r2: "fst (createPaymentIntent world_flaky
        ''3f2504e0-4f89-41d3-9a0c-0305e82c3301'' ''basic'' 200 ''USD'' 50) = Inr ?r"
    by simp
  from c2 o have r3: "length (orders (snd (createPaymentIntent world_flaky
        ''3f2504e0-4f89-41d3-9a0c-0305e82c3301'' ''basic'' 200 ''USD'' 50))) = 1"
    by simp
  from f1 r1 r2 r3 show ?thesis by (intro conjI)
qed

theorem three_orders_in_one_call_counterexample:
  "orders world_down = []
   \<and> length (orders (snd (createPaymentIntent world_down ''3f2504e0-4f89-41d3-9a0c-0305e82c3301''
        ''basic'' 200 ''USD'' 50))) = 3"
  by code_simp







end
